theory Spec2Isabelle
  imports Complex_Main
begin

section \<open>Values of the host language\<close>

text \<open>
  The library is TypeScript: its channels are ECMAScript Numbers and its arguments are
  arbitrary runtime values, which is why \<open>isBadNum\<close> asks for \<open>typeof\<close>. Of a symbol
  the program can only see that it is neither a string nor a number and that it cannot be
  made part of a message; of an object or a function, in addition, what converting it to
  a string gives: a string, or what its conversion throws. A Number is
  NaN, one of the two infinities, or a finite IEEE-754 double, kept here as the rational
  it denotes. The two zeros are one value: the program only compares channels, tests them
  for falsiness and prints them, and none of these tells \<open>+0\<close> from \<open>-0\<close>.
  Strings are lists of 8-bit characters. What the program takes from the language
  (\<open>Number.prototype.toString\<close>, \<open>parseInt\<close>, \<open>typeof\<close>, \<open>||\<close>, \<open><\<close>, template literals,
  \<open>join\<close>, \<open>charAt\<close>, \<open>substr\<close>, \<open>match\<close>) follows ECMAScript.
\<close>

datatype number = NaN | PosInfinity | NegInfinity | Fin rat

datatype error = Error (message: string) | TypeError

datatype jsval =
    Undefined
  | Null
  | Bool bool
  | Num (the_num: number)
  | Str (the_str: string)
  | BigInt int
  | Symbol
  | Object (callable: bool) (converted: "error + string")

subsection \<open>Rounding a rational to the nearest double\<close>

function ndigits :: "int \<Rightarrow> int \<Rightarrow> nat" where
  "ndigits b s = (if s \<le> 0 \<or> b < 2 then 0 else Suc (ndigits b (s div b)))"
  by pat_completeness auto
termination
  by (relation "measure (\<lambda>(b, s). nat s)") (auto intro!: int_div_less_self)

declare ndigits.simps [simp del]

definition floor_log :: "int \<Rightarrow> rat \<Rightarrow> int" where
  \<comment> \<open>for \<open>0 < q\<close> and \<open>2 \<le> b\<close>: the \<open>e\<close> with \<open>b ^ e \<le> q < b ^ (e + 1)\<close>\<close>
  "floor_log b q =
     (if 1 \<le> q then int (ndigits b \<lfloor>q\<rfloor>) - 1
      else - int (ndigits b (\<lceil>1 / q\<rceil> - 1)))"

definition round_half_even :: "rat \<Rightarrow> int" where
  "round_half_even q =
     (let f = \<lfloor>q\<rfloor>; d = q - of_int f
      in if d < 1 / 2 then f else if 1 / 2 < d then f + 1 else if even f then f else f + 1)"

definition round_double :: "rat \<Rightarrow> rat" where
  \<comment> \<open>for \<open>0 < q\<close>: 53 significant bits, exponents from -1074, ties to even\<close>
  "round_double q =
     (let p = max (floor_log 2 q - 52) (- 1074)
      in of_int (round_half_even (q / 2 powi p)) * 2 powi p)"

definition isSafeInteger :: "rat \<Rightarrow> bool" where
  \<comment> \<open>a whole number of magnitude below \<open>2 ^ 53\<close>: every one of them is a double\<close>
  "isSafeInteger q \<longleftrightarrow> of_int \<lfloor>q\<rfloor> = q \<and> \<bar>q\<bar> < 9007199254740992"

definition to_double :: "rat \<Rightarrow> number" where
  \<comment> \<open>the Number value for \<open>q\<close>; results from \<open>2 ^ 1024\<close> on are infinite\<close>
  "to_double q =
     (if isSafeInteger q then Fin q
      else if q < 0 then
        (if 1024 \<le> floor_log 2 (round_double (- q)) then NegInfinity
         else Fin (- round_double (- q)))
      else
        (if 1024 \<le> floor_log 2 (round_double q) then PosInfinity
         else Fin (round_double q)))"

subsection \<open>Number::toString(x, radix)\<close>

definition digit_char :: "int \<Rightarrow> char" where
  "digit_char d = ''0123456789abcdefghijklmnopqrstuvwxyz'' ! nat d"

function digits :: "int \<Rightarrow> int \<Rightarrow> string" where
  "digits b s =
     (if s < b \<or> b < 2 then [digit_char s]
      else digits b (s div b) @ [digit_char (s mod b)])"
  by pat_completeness auto
termination
  by (relation "measure (\<lambda>(b, s). nat s)") (auto intro!: int_div_less_self)

declare digits.simps [simp del]

text \<open>
  ECMAScript asks for integers \<open>n\<close>, \<open>k\<close>, \<open>s\<close> with \<open>radix ^ (k - 1) \<le> s < radix ^ k\<close>,
  such that \<open>s * radix ^ (n - k)\<close> rounds to \<open>x\<close>, with \<open>k\<close> as small as possible and, of
  two such \<open>s\<close>, the one nearer to \<open>x\<close>, the even one when they are as near. \<open>shortest\<close> tries \<open>k = 1, 2, ...\<close>; at each \<open>k\<close>
  only the two \<open>k\<close>-digit numbers around \<open>x\<close> can round to it. The fuel bounds \<open>k\<close>
  beyond what 53 bits need in any radix. A safe integer is its own shortest digit string,
  in every radix, and has at most 16 decimal digits: it is printed without the search.
\<close>

fun shortest :: "nat \<Rightarrow> int \<Rightarrow> int \<Rightarrow> rat \<Rightarrow> nat \<Rightarrow> int \<times> nat \<times> int" where
  "shortest 0 b n x k = (n, k, \<lfloor>x / of_int b powi (n - int k)\<rfloor>)"
| "shortest (Suc fuel) b n x k =
     (let u = of_int b powi (n - int k);
          lo = \<lfloor>x / u\<rfloor>;
          hi = lo + 1;
          oklo = (round_double (of_int lo * u) = x);
          okhi = (round_double (of_int hi * u) = x);
          s = (if oklo \<and> okhi
               then (if x - of_int lo * u < of_int hi * u - x then lo
                     else if of_int hi * u - x < x - of_int lo * u then hi
                     else if even lo then lo else hi)
               else if oklo then lo else hi)
      in if oklo \<or> okhi
         then (if s = b ^ k then (n + 1, k, b ^ (k - 1)) else (n, k, s))
         else shortest fuel b n x (k + 1))"

definition zeros :: "nat \<Rightarrow> string" where
  "zeros m = replicate m (CHR ''0'')"

definition pos_toString :: "int \<Rightarrow> rat \<Rightarrow> string" where
  "pos_toString radix x =
     (if isSafeInteger x then digits radix \<lfloor>x\<rfloor> else
      (case shortest 64 radix (floor_log radix x + 1) x 1 of (n, k, s) \<Rightarrow>
        let ds = digits radix s in
        if radix \<noteq> 10 \<or> (- 5 \<le> n \<and> n \<le> 21) then
          (if int k \<le> n then ds @ zeros (nat (n - int k))
           else if 0 < n then take (nat n) ds @ ''.'' @ drop (nat n) ds
           else ''0.'' @ zeros (nat (- n)) @ ds)
        else
          (let e = n - 1;
               exponentSign = (if e < 0 then ''-'' else ''+'');
               ex = digits 10 \<bar>e\<bar>
           in if k = 1 then ds @ ''e'' @ exponentSign @ ex
              else take 1 ds @ ''.'' @ drop 1 ds @ ''e'' @ exponentSign @ ex)))"

fun Number_toString :: "int \<Rightarrow> number \<Rightarrow> string" where
  "Number_toString radix NaN = ''NaN''"
| "Number_toString radix PosInfinity = ''Infinity''"
| "Number_toString radix NegInfinity = ''-Infinity''"
| "Number_toString radix (Fin x) =
     (if x = 0 then ''0''
      else if x < 0 then ''-'' @ pos_toString radix (- x)
      else pos_toString radix x)"

subsection \<open>Operators, coercions and string methods\<close>

fun typeof :: "jsval \<Rightarrow> string" where
  "typeof Undefined = ''undefined''"
| "typeof Null = ''object''"
| "typeof (Bool v) = ''boolean''"
| "typeof (Num x) = ''number''"
| "typeof (Str t) = ''string''"
| "typeof (BigInt n) = ''bigint''"
| "typeof Symbol = ''symbol''"
| "typeof (Object c r) = (if c then ''function'' else ''object'')"

fun ToBoolean :: "jsval \<Rightarrow> bool" where
  "ToBoolean Undefined = False"
| "ToBoolean Null = False"
| "ToBoolean (Bool v) = v"
| "ToBoolean (Num x) = (x \<noteq> NaN \<and> x \<noteq> Fin 0)"
| "ToBoolean (Str t) = (t \<noteq> [])"
| "ToBoolean (BigInt n) = (n \<noteq> 0)"
| "ToBoolean Symbol = True"
| "ToBoolean (Object c r) = True"

definition logical_or :: "jsval \<Rightarrow> jsval \<Rightarrow> jsval" where
  \<comment> \<open>\<open>x || y\<close>\<close>
  "logical_or x y = (if ToBoolean x then x else y)"

fun number_lt :: "number \<Rightarrow> number \<Rightarrow> bool" where
  \<comment> \<open>\<open>x < y\<close> on Numbers; \<open>x > y\<close> is \<open>number_lt y x\<close>\<close>
  "number_lt NaN y = False"
| "number_lt x NaN = False"
| "number_lt x NegInfinity = False"
| "number_lt NegInfinity y = True"
| "number_lt PosInfinity y = False"
| "number_lt (Fin x) PosInfinity = True"
| "number_lt (Fin x) (Fin y) = (x < y)"

fun ToString :: "jsval \<Rightarrow> error + string" where
  \<comment> \<open>the conversion to a string, as \<open>join\<close> applies it to an element: it may throw\<close>
  "ToString Undefined = Inr ''undefined''"
| "ToString Null = Inr ''null''"
| "ToString (Bool v) = Inr (if v then ''true'' else ''false'')"
| "ToString (Num x) = Inr (Number_toString 10 x)"
| "ToString (Str t) = Inr t"
| "ToString (BigInt n) = Inr (if n < 0 then ''-'' @ digits 10 (- n) else digits 10 n)"
| "ToString Symbol = Inl TypeError"
| "ToString (Object c r) = r"

definition join_element :: "jsval \<Rightarrow> error + string" where
  "join_element v = (if v = Undefined \<or> v = Null then Inr [] else ToString v)"

fun Array_join :: "jsval list \<Rightarrow> string \<Rightarrow> error + string" where
  "Array_join [] sep = Inr []"
| "Array_join [v] sep = join_element v"
| "Array_join (v # w # vs) sep =
     (case join_element v of
        Inl e \<Rightarrow> Inl e
      | Inr t \<Rightarrow>
          (case Array_join (w # vs) sep of
             Inl e \<Rightarrow> Inl e
           | Inr u \<Rightarrow> Inr (t @ sep @ u)))"

definition thrown_Error :: "string \<Rightarrow> error + string \<Rightarrow> error" where
  \<comment> \<open>what \<open>throw new Error(`prefix${expr}`)\<close> throws: \<open>expr\<close> is evaluated first, and when
      that throws no \<open>Error\<close> is made\<close>
  "thrown_Error prefix evaluated =
     (case evaluated of Inl e \<Rightarrow> e | Inr t \<Rightarrow> Error (prefix @ t))"

definition element :: "jsval list \<Rightarrow> nat \<Rightarrow> jsval" where
  \<comment> \<open>\<open>args[i]\<close>, also as read by a destructuring pattern: \<open>undefined\<close> past the end\<close>
  "element args i = (if i < length args then args ! i else Undefined)"

definition charAt :: "string \<Rightarrow> nat \<Rightarrow> string" where
  "charAt t i = (if i < length t then [t ! i] else [])"

definition substr :: "string \<Rightarrow> int \<Rightarrow> string" where
  \<comment> \<open>\<open>t.substr(start)\<close>: a negative start counts from the end\<close>
  "substr t start =
     (if start < 0 then drop (nat (max (int (length t) + start) 0)) t
      else drop (nat start) t)"

definition isWhiteSpace :: "char \<Rightarrow> bool" where
  "isWhiteSpace c \<longleftrightarrow>
     c \<in> set [CHR 0x09, CHR 0x0A, CHR 0x0B, CHR 0x0C, CHR 0x0D, CHR 0x20, CHR 0xA0]"

definition digit_value :: "char \<Rightarrow> int" where
  \<comment> \<open>the value of a letter or digit as a digit; 36 for any other character\<close>
  "digit_value c =
     (let n = int (of_char c) in
      if 48 \<le> n \<and> n \<le> 57 then n - 48
      else if 97 \<le> n \<and> n \<le> 122 then n - 87
      else if 65 \<le> n \<and> n \<le> 90 then n - 55
      else 36)"

definition parseInt :: "string \<Rightarrow> int \<Rightarrow> number" where
  "parseInt string radix =
     (let S = dropWhile isWhiteSpace string;
          sign = (if take 1 S = ''-'' then - 1 else 1);
          S = (if take 1 S = ''+'' \<or> take 1 S = ''-'' then drop 1 S else S)
      in if radix \<noteq> 0 \<and> (radix < 2 \<or> 36 < radix) then NaN
         else
           let stripPrefix = (radix = 0 \<or> radix = 16);
               hasPrefix = (stripPrefix \<and> (take 2 S = ''0x'' \<or> take 2 S = ''0X''));
               R = (if hasPrefix then 16 else if radix = 0 then 10 else radix);
               S = (if hasPrefix then drop 2 S else S);
               Z = takeWhile (\<lambda>c. digit_value c < R) S
           in if Z = [] then NaN
              else to_double (of_int (sign * foldl (\<lambda>v c. v * R + digit_value c) 0 Z)))"

section \<open>The colour library\<close>

definition padHex :: "number \<Rightarrow> string" where
  "padHex num = substr (''00'' @ Number_toString 16 num) (- 2)"

definition isBadNum :: "jsval \<Rightarrow> number \<Rightarrow> bool" where
  \<comment> \<open>\<open>mx\<close> is the source's \<open>max\<close>\<close>
  "isBadNum num mx \<longleftrightarrow>
     typeof num \<noteq> ''number'' \<or> number_lt (the_num num) (Fin 0) \<or> number_lt mx (the_num num)"

subsection \<open>parseHexColour\<close>

definition isHexDigit :: "char \<Rightarrow> bool" where
  \<comment> \<open>the class \<open>[a-f0-9]\<close> under the flag \<open>i\<close>\<close>
  "isHexDigit c \<longleftrightarrow> c \<in> set ''0123456789abcdefABCDEF''"

definition match3 :: "string \<Rightarrow> string list option" where
  \<comment> \<open>\<open>hex.match(/^#([a-f0-9])([a-f0-9])([a-f0-9])$/i)\<close>: the match and its three groups\<close>
  "match3 hex =
     (if length hex = 4 \<and> take 1 hex = ''#'' \<and> list_all isHexDigit (drop 1 hex)
      then Some [hex, [hex ! 1], [hex ! 2], [hex ! 3]]
      else None)"

definition match6 :: "string \<Rightarrow> string list option" where
  \<comment> \<open>\<open>hex.match(/^#([a-f0-9]{2})([a-f0-9]{2})([a-f0-9]{2})$/i)\<close>\<close>
  "match6 hex =
     (if length hex = 7 \<and> take 1 hex = ''#'' \<and> list_all isHexDigit (drop 1 hex)
      then Some [hex, take 2 (drop 1 hex), take 2 (drop 3 hex), take 2 (drop 5 hex)]
      else None)"

record HexColour =
  hex_r :: number
  hex_g :: number
  hex_b :: number
  hex_a :: number

definition parseHexColour :: "string \<Rightarrow> error + HexColour" where
  "parseHexColour hex =
     (case match3 hex of
        Some comps3 \<Rightarrow>
          Inr \<lparr>hex_r = parseInt (comps3 ! 1 @ comps3 ! 1) 16,
               hex_g = parseInt (comps3 ! 2 @ comps3 ! 2) 16,
               hex_b = parseInt (comps3 ! 3 @ comps3 ! 3) 16,
               hex_a = Fin 1\<rparr>
      | None \<Rightarrow>
          (case match6 hex of
             Some comps6 \<Rightarrow>
               Inr \<lparr>hex_r = parseInt (comps6 ! 1) 16,
                    hex_g = parseInt (comps6 ! 2) 16,
                    hex_b = parseInt (comps6 ! 3) 16,
                    hex_a = Fin 1\<rparr>
           | None \<Rightarrow> Inl (Error (''Invalid hex colour: '' @ hex))))"

subsection \<open>ColourRGB\<close>

record ColourRGB =
  rgb_r :: number
  rgb_g :: number
  rgb_b :: number
  rgb_a :: number

definition ColourRGB_check :: "jsval list \<Rightarrow> jsval \<Rightarrow> jsval \<Rightarrow> jsval \<Rightarrow> jsval \<Rightarrow> error + ColourRGB" where
  \<comment> \<open>the constructor's closing check, on the four fields just assigned\<close>
  "ColourRGB_check args r g b a =
     (if isBadNum r (Fin 255) \<or> isBadNum g (Fin 255) \<or> isBadNum b (Fin 255) \<or> isBadNum a (Fin 1)
      then Inl (thrown_Error ''Invalid ColourRGB arguments: '' (Array_join args '', ''))
      else Inr \<lparr>rgb_r = the_num r, rgb_g = the_num g, rgb_b = the_num b, rgb_a = the_num a\<rparr>)"

definition ColourRGB_new :: "jsval list \<Rightarrow> error + ColourRGB" where
  "ColourRGB_new args =
     (if length args = 1 \<and> typeof (args ! 0) = ''string'' \<and> charAt (the_str (args ! 0)) 0 = ''#''
      then
        (case parseHexColour (the_str (args ! 0)) of
           Inl e \<Rightarrow> Inl e
         | Inr hexColour \<Rightarrow>
             ColourRGB_check args (Num (hex_r hexColour)) (Num (hex_g hexColour))
               (Num (hex_b hexColour)) (Num (hex_a hexColour)))
      else if length args = 3 \<or> length args = 4 then
        ColourRGB_check args (element args 0) (element args 1) (element args 2)
          (logical_or (element args 3) (Num (Fin 1)))
      else Inl (thrown_Error ''Invalid ColourRGB arguments: '' (Array_join args '', '')))"

definition ColourRGB_alpha :: "ColourRGB \<Rightarrow> jsval \<Rightarrow> error + ColourRGB" where
  "ColourRGB_alpha this alpha =
     ColourRGB_new [Num (rgb_r this), Num (rgb_g this), Num (rgb_b this), alpha]"

definition ColourRGB_toString :: "ColourRGB \<Rightarrow> string" where
  "ColourRGB_toString this =
     (if rgb_a this = Fin 1
      then ''#'' @ padHex (rgb_r this) @ padHex (rgb_g this) @ padHex (rgb_b this)
      else ''rgba('' @ Number_toString 10 (rgb_r this) @ '', '' @ Number_toString 10 (rgb_g this)
             @ '', '' @ Number_toString 10 (rgb_b this) @ '', '' @ Number_toString 10 (rgb_a this)
             @ '')'')"

subsection \<open>ColourHSL\<close>

record ColourHSL =
  hsl_h :: number
  hsl_s :: number
  hsl_l :: number
  hsl_a :: number

definition ColourHSL_new :: "jsval \<Rightarrow> jsval \<Rightarrow> jsval \<Rightarrow> jsval \<Rightarrow> error + ColourHSL" where
  \<comment> \<open>\<open>a = 1\<close> is a default parameter: it replaces \<open>undefined\<close>, passed or left out\<close>
  "ColourHSL_new h s l a0 =
     (let a = (if a0 = Undefined then Num (Fin 1) else a0)
      in if isBadNum h (Fin 360) \<or> isBadNum s (Fin 100) \<or> isBadNum l (Fin 100) \<or> isBadNum a (Fin 1)
         then Inl (thrown_Error ''Invalid ColourHSL arguments: '' (Array_join [h, s, l, a] '', ''))
         else Inr \<lparr>hsl_h = the_num h, hsl_s = the_num s, hsl_l = the_num l, hsl_a = the_num a\<rparr>)"

definition ColourHSL_alpha :: "ColourHSL \<Rightarrow> jsval \<Rightarrow> error + ColourHSL" where
  "ColourHSL_alpha this alpha =
     ColourHSL_new (Num (hsl_h this)) (Num (hsl_s this)) (Num (hsl_l this)) alpha"

definition ColourHSL_toString :: "ColourHSL \<Rightarrow> string" where
  "ColourHSL_toString this =
     (if hsl_a this = Fin 1
      then ''hsl('' @ Number_toString 10 (hsl_h this) @ '', '' @ Number_toString 10 (hsl_s this)
             @ ''%, '' @ Number_toString 10 (hsl_l this) @ ''%)''
      else ''hsla('' @ Number_toString 10 (hsl_h this) @ '', '' @ Number_toString 10 (hsl_s this)
             @ ''%, '' @ Number_toString 10 (hsl_l this) @ ''%, '' @ Number_toString 10 (hsl_a this)
             @ '')'')"

subsection \<open>Instances as objects\<close>

text \<open>
  \<open>new\<close> makes an object of its own and the methods read their receiver through a
  reference. The objects of a class are kept in a list and a reference is an index into
  it: a constructor that returns appends its object, one that throws leaves nothing
  reachable behind.
\<close>

definition new_object :: "'a list \<Rightarrow> error + 'a \<Rightarrow> (error + nat) \<times> 'a list" where
  "new_object heap constructed =
     (case constructed of
        Inl e \<Rightarrow> (Inl e, heap)
      | Inr obj \<Rightarrow> (Inr (length heap), heap @ [obj]))"

definition ColourRGB_alpha_at :: "ColourRGB list \<Rightarrow> nat \<Rightarrow> jsval \<Rightarrow> (error + nat) \<times> ColourRGB list" where
  "ColourRGB_alpha_at heap this alpha = new_object heap (ColourRGB_alpha (heap ! this) alpha)"

definition ColourHSL_alpha_at :: "ColourHSL list \<Rightarrow> nat \<Rightarrow> jsval \<Rightarrow> (error + nat) \<times> ColourHSL list" where
  "ColourHSL_alpha_at heap this alpha = new_object heap (ColourHSL_alpha (heap ! this) alpha)"

section \<open>Notions of the specification\<close>

definition lower :: "char \<Rightarrow> char" where
  \<comment> \<open>lower case, on the letters a hex digit can be\<close>
  "lower c = (case map_of (zip ''ABCDEF'' ''abcdef'') c of Some d \<Rightarrow> d | None \<Rightarrow> c)"

definition canonical_hex :: "string \<Rightarrow> string" where
  \<comment> \<open>the lowercase six-digit form of \<open>#rgb\<close> (each digit doubled) and of \<open>#rrggbb\<close>\<close>
  "canonical_hex hex =
     (if length hex = 4 then CHR ''#'' # concat (map (\<lambda>c. [lower c, lower c]) (tl hex))
      else CHR ''#'' # map lower (tl hex))"

fun String_includes :: "string \<Rightarrow> string \<Rightarrow> bool" where
  \<comment> \<open>\<open>t\<close> contains \<open>s\<close> as a run of consecutive characters\<close>
  "String_includes [] s = (s = [])"
| "String_includes (c # t) s = (take (length s) (c # t) = s \<or> String_includes t s)"

section \<open>Numbers that are small whole numbers\<close>

lemma isSafeInteger_of_int: "isSafeInteger (of_int n) \<longleftrightarrow> \<bar>n\<bar> < 9007199254740992"
proof -
  have "\<bar>rat_of_int n\<bar> = of_int \<bar>n\<bar>" by simp
  then show ?thesis
    unfolding isSafeInteger_def by (simp only: of_int_floor_cancel of_int_less_numeral_iff) simp
qed

lemma to_double_safe: "isSafeInteger q \<Longrightarrow> to_double q = Fin q"
  by (simp only: to_double_def if_True)

lemma isSafeInteger_small: "0 \<le> n \<Longrightarrow> n \<le> 360 \<Longrightarrow> isSafeInteger (of_int n)"
  unfolding isSafeInteger_of_int by linarith

lemma digits_zero: "digits b 0 = ''0''"
proof -
  have "0 < b \<or> b < 2" by arith
  then show ?thesis by (subst digits.simps) (simp add: digit_char_def)
qed

lemma Number_toString_safe:
  assumes "0 \<le> n" "isSafeInteger (of_int n)"
  shows "Number_toString radix (Fin (of_int n)) = digits radix n"
proof (cases "n = 0")
  case True
  then show ?thesis by (simp add: digits_zero)
next
  case False
  with assms(1) have "0 < n" by simp
  then have "pos_toString radix (of_int n) = digits radix n"
    using assms(2) by (simp only: pos_toString_def if_True floor_of_int)
  with \<open>0 < n\<close> show ?thesis by simp
qed

lemma digits_16_byte:
  assumes "0 \<le> n" "n \<le> 255"
  shows "digits 16 n =
     (if n < 16 then [digit_char n] else [digit_char (n div 16), digit_char (n mod 16)])"
proof (cases "n < 16")
  case True
  then show ?thesis by (simp add: digits.simps[of 16 n])
next
  case False
  with assms have "n div 16 < 16" by simp
  then have "digits 16 (n div 16) = [digit_char (n div 16)]"
    by (simp add: digits.simps[of 16 "n div 16"])
  with False show ?thesis by (simp add: digits.simps[of 16 n])
qed

lemma padHex_byte:
  assumes "0 \<le> n" "n \<le> 255"
  shows "padHex (Fin (of_int n)) = [digit_char (n div 16), digit_char (n mod 16)]"
proof -
  from assms have "Number_toString 16 (Fin (of_int n)) = digits 16 n"
    by (intro Number_toString_safe isSafeInteger_small) simp_all
  with assms show ?thesis
    by (simp add: padHex_def digits_16_byte substr_def digit_char_def)
qed

lemma isBadNum_Fin: "isBadNum (Num (Fin q)) (Fin m) \<longleftrightarrow> q < 0 \<or> m < q"
  by (simp add: isBadNum_def)

section \<open>Hex digits\<close>

lemma isHexDigit_cases:
  assumes "isHexDigit c"
  shows "\<not> isWhiteSpace c" "c \<noteq> CHR ''-''" "c \<noteq> CHR ''+''" "c \<noteq> CHR ''x''" "c \<noteq> CHR ''X''"
    "0 \<le> digit_value c" "digit_value c < 16"
  using assms by (auto simp: isHexDigit_def isWhiteSpace_def digit_value_def)

lemma digit_char_digit_value: "isHexDigit c \<Longrightarrow> digit_char (digit_value c) = lower c"
proof -
  have "\<forall>c\<in>set ''0123456789abcdefABCDEF''. digit_char (digit_value c) = lower c"
    by (simp add: digit_value_def digit_char_def lower_def)
  then show "isHexDigit c \<Longrightarrow> digit_char (digit_value c) = lower c"
    unfolding isHexDigit_def by blast
qed

lemma parseInt_hex_pair:
  assumes "isHexDigit c1" "isHexDigit c2"
  shows "parseInt [c1, c2] 16 = Fin (of_int (digit_value c1 * 16 + digit_value c2))"
proof -
  note f1 = isHexDigit_cases[OF assms(1)] and f2 = isHexDigit_cases[OF assms(2)]
  have "isSafeInteger (of_int (digit_value c1 * 16 + digit_value c2))"
    using f1(6,7) f2(6,7) by (intro isSafeInteger_small) simp_all
  then have "to_double (of_int (digit_value c1 * 16 + digit_value c2)) =
      Fin (of_int (digit_value c1 * 16 + digit_value c2))"
    by (rule to_double_safe)
  then show ?thesis
    using f1 f2 by (simp add: parseInt_def Let_def)
qed

lemma hex_pair:
  assumes "isHexDigit c1" "isHexDigit c2"
  shows "padHex (parseInt [c1, c2] 16) = [lower c1, lower c2]"
    and "\<not> isBadNum (Num (parseInt [c1, c2] 16)) (Fin 255)"
proof -
  note f1 = isHexDigit_cases[OF assms(1)] and f2 = isHexDigit_cases[OF assms(2)]
  define n where "n = digit_value c1 * 16 + digit_value c2"
  have n: "0 \<le> n" "n \<le> 255" "n div 16 = digit_value c1" "n mod 16 = digit_value c2"
    using f1(6,7) f2(6,7) by (simp_all add: n_def)
  have p: "parseInt [c1, c2] 16 = Fin (of_int n)"
    unfolding n_def by (rule parseInt_hex_pair[OF assms])
  show "padHex (parseInt [c1, c2] 16) = [lower c1, lower c2]"
    by (simp add: p padHex_byte[OF n(1,2)] n(3,4) digit_char_digit_value assms)
  show "\<not> isBadNum (Num (parseInt [c1, c2] 16)) (Fin 255)"
    using n(1,2) by (simp add: p isBadNum_Fin)
qed

lemma parseHexColour_3:
  assumes "isHexDigit c1" "isHexDigit c2" "isHexDigit c3"
  shows "parseHexColour [CHR ''#'', c1, c2, c3] =
     Inr \<lparr>hex_r = parseInt [c1, c1] 16, hex_g = parseInt [c2, c2] 16,
          hex_b = parseInt [c3, c3] 16, hex_a = Fin 1\<rparr>"
  using assms by (simp add: parseHexColour_def match3_def)

lemma parseHexColour_6:
  assumes "isHexDigit c1" "isHexDigit c2" "isHexDigit c3"
    "isHexDigit c4" "isHexDigit c5" "isHexDigit c6"
  shows "parseHexColour [CHR ''#'', c1, c2, c3, c4, c5, c6] =
     Inr \<lparr>hex_r = parseInt [c1, c2] 16, hex_g = parseInt [c3, c4] 16,
          hex_b = parseInt [c5, c6] 16, hex_a = Fin 1\<rparr>"
  using assms by (simp add: parseHexColour_def match3_def match6_def)

lemma ColourRGB_new_hash:
  "ColourRGB_new [Str (CHR ''#'' # ds)] =
     (case parseHexColour (CHR ''#'' # ds) of
        Inl e \<Rightarrow> Inl e
      | Inr p \<Rightarrow>
          ColourRGB_check [Str (CHR ''#'' # ds)] (Num (hex_r p)) (Num (hex_g p))
            (Num (hex_b p)) (Num (hex_a p)))"
  by (simp add: ColourRGB_new_def charAt_def)

lemma length_3E: "length ds = 3 \<Longrightarrow> \<exists>c1 c2 c3. ds = [c1, c2, c3]"
  by (auto simp: numeral_3_eq_3 length_Suc_conv)

lemma length_6E: "length ds = 6 \<Longrightarrow> \<exists>c1 c2 c3 c4 c5 c6. ds = [c1, c2, c3, c4, c5, c6]"
proof -
  assume "length ds = 6"
  then have "length ds = Suc (Suc (Suc (Suc (Suc (Suc 0)))))" by simp
  then show ?thesis by (auto simp: length_Suc_conv)
qed

lemma lower_hex_digit: "isHexDigit c \<Longrightarrow> lower c \<in> set ''0123456789abcdef''"
proof -
  have "\<forall>c\<in>set ''0123456789abcdefABCDEF''. lower c \<in> set ''0123456789abcdef''"
    by (simp add: lower_def)
  then show "isHexDigit c \<Longrightarrow> lower c \<in> set ''0123456789abcdef''"
    unfolding isHexDigit_def by blast
qed

lemma round_trip_3:
  assumes "isHexDigit c1" "isHexDigit c2" "isHexDigit c3"
  shows "ColourRGB_new [Str [CHR ''#'', c1, c2, c3]] =
      Inr \<lparr>rgb_r = parseInt [c1, c1] 16, rgb_g = parseInt [c2, c2] 16,
           rgb_b = parseInt [c3, c3] 16, rgb_a = Fin 1\<rparr>"
    and "ColourRGB_toString \<lparr>rgb_r = parseInt [c1, c1] 16, rgb_g = parseInt [c2, c2] 16,
           rgb_b = parseInt [c3, c3] 16, rgb_a = Fin 1\<rparr> = canonical_hex [CHR ''#'', c1, c2, c3]"
  using assms
  by (simp_all add: ColourRGB_new_hash parseHexColour_3 ColourRGB_check_def hex_pair
      isBadNum_Fin ColourRGB_toString_def canonical_hex_def)

lemma round_trip_6:
  assumes "isHexDigit c1" "isHexDigit c2" "isHexDigit c3"
    "isHexDigit c4" "isHexDigit c5" "isHexDigit c6"
  shows "ColourRGB_new [Str [CHR ''#'', c1, c2, c3, c4, c5, c6]] =
      Inr \<lparr>rgb_r = parseInt [c1, c2] 16, rgb_g = parseInt [c3, c4] 16,
           rgb_b = parseInt [c5, c6] 16, rgb_a = Fin 1\<rparr>"
    and "ColourRGB_toString \<lparr>rgb_r = parseInt [c1, c2] 16, rgb_g = parseInt [c3, c4] 16,
           rgb_b = parseInt [c5, c6] 16, rgb_a = Fin 1\<rparr> =
         canonical_hex [CHR ''#'', c1, c2, c3, c4, c5, c6]"
  using assms
  by (simp_all add: ColourRGB_new_hash parseHexColour_6 ColourRGB_check_def hex_pair
      isBadNum_Fin ColourRGB_toString_def canonical_hex_def)

lemma canonical_hex_shape:
  assumes "length ds = 3 \<or> length ds = 6" "list_all isHexDigit ds"
  shows "length (canonical_hex (CHR ''#'' # ds)) = 7"
    and "set (tl (canonical_hex (CHR ''#'' # ds))) \<subseteq> set ''0123456789abcdef''"
proof -
  show "length (canonical_hex (CHR ''#'' # ds)) = 7"
    using assms(1) by (auto simp: canonical_hex_def length_concat comp_def sum_list_triv dest!: length_3E)
  have l: "lower c \<in> set ''0123456789abcdef''" if "c \<in> set ds" for c
    using that assms(2) by (intro lower_hex_digit) (simp add: list_all_iff)
  have s: "set (tl (canonical_hex (CHR ''#'' # ds))) = lower ` set ds"
    unfolding canonical_hex_def by auto
  show "set (tl (canonical_hex (CHR ''#'' # ds))) \<subseteq> set ''0123456789abcdef''"
    unfolding s using l by blast
qed

section \<open>parseHexColour and the constructor's string path\<close>

text \<open>
  Claim C3. Every string \<open>#rgb\<close> or \<open>#rrggbb\<close> of hex digits, in either case, is
  parsed with alpha 1; the constructor takes the parser's components as they are, and
  \<open>toString\<close> of the instance is the canonical form of the string: seven characters,
  \<open>#\<close> and six lowercase hex digits, the digits of the short form doubled. \<open>#F00\<close> parses
  to 255, 0, 0, 1 and prints \<open>#ff0000\<close>; \<open>#0f0\<close> prints \<open>#00ff00\<close>.
\<close>

theorem hex_round_trip:
  assumes "length ds = 3 \<or> length ds = 6" and "list_all isHexDigit ds"
  shows "map_sum id hex_a (parseHexColour (CHR ''#'' # ds)) = Inr (Fin 1) \<and>
         map_sum id (\<lambda>p. \<lparr>rgb_r = hex_r p, rgb_g = hex_g p, rgb_b = hex_b p, rgb_a = hex_a p\<rparr>)
           (parseHexColour (CHR ''#'' # ds)) = ColourRGB_new [Str (CHR ''#'' # ds)] \<and>
         map_sum id ColourRGB_toString (ColourRGB_new [Str (CHR ''#'' # ds)]) =
           Inr (canonical_hex (CHR ''#'' # ds)) \<and>
         length (canonical_hex (CHR ''#'' # ds)) = 7 \<and>
         set (tl (canonical_hex (CHR ''#'' # ds))) \<subseteq> set ''0123456789abcdef'' \<and>
         parseHexColour ''#F00'' =
           Inr \<lparr>hex_r = Fin 255, hex_g = Fin 0, hex_b = Fin 0, hex_a = Fin 1\<rparr> \<and>
         map_sum id ColourRGB_toString (ColourRGB_new [Str ''#F00'']) = Inr ''#ff0000'' \<and>
         map_sum id ColourRGB_toString (ColourRGB_new [Str ''#0f0'']) = Inr ''#00ff00''"
proof -
  have general:
    "map_sum id hex_a (parseHexColour (CHR ''#'' # ds)) = Inr (Fin 1) \<and>
     map_sum id (\<lambda>p. \<lparr>rgb_r = hex_r p, rgb_g = hex_g p, rgb_b = hex_b p, rgb_a = hex_a p\<rparr>)
       (parseHexColour (CHR ''#'' # ds)) = ColourRGB_new [Str (CHR ''#'' # ds)] \<and>
     map_sum id ColourRGB_toString (ColourRGB_new [Str (CHR ''#'' # ds)]) =
       Inr (canonical_hex (CHR ''#'' # ds))"
    using assms(1)
  proof
    assume "length ds = 3"
    then obtain c1 c2 c3 where ds: "ds = [c1, c2, c3]" using length_3E by blast
    with assms(2) have h: "isHexDigit c1" "isHexDigit c2" "isHexDigit c3" by simp_all
    show ?thesis
      unfolding ds by (simp add: parseHexColour_3[OF h] round_trip_3[OF h])
  next
    assume "length ds = 6"
    then obtain c1 c2 c3 c4 c5 c6 where ds: "ds = [c1, c2, c3, c4, c5, c6]"
      using length_6E by blast
    with assms(2) have h: "isHexDigit c1" "isHexDigit c2" "isHexDigit c3"
      "isHexDigit c4" "isHexDigit c5" "isHexDigit c6" by simp_all
    show ?thesis
      unfolding ds by (simp add: parseHexColour_6[OF h] round_trip_6[OF h])
  qed
  have e1: "parseHexColour ''#F00'' =
      Inr \<lparr>hex_r = Fin 255, hex_g = Fin 0, hex_b = Fin 0, hex_a = Fin 1\<rparr>"
    by code_simp
  have e2: "map_sum id ColourRGB_toString (ColourRGB_new [Str ''#F00'']) = Inr ''#ff0000''"
    by code_simp
  have e3: "map_sum id ColourRGB_toString (ColourRGB_new [Str ''#0f0'']) = Inr ''#00ff00''"
    by code_simp
  from general canonical_hex_shape[OF assms] e1 e2 e3 show ?thesis by (intro conjI) blast+
qed

theorem hex_round_trip_witness:
  "length ''aBc'' = 3 \<and> list_all isHexDigit ''aBc'' \<and>
   map_sum id ColourRGB_toString (ColourRGB_new [Str ''#aBc'']) = Inr ''#aabbcc''"
proof -
  have h: "length ''aBc'' = 3 \<or> length ''aBc'' = 6" "list_all isHexDigit ''aBc''"
    by (simp_all add: isHexDigit_def)
  have c: "canonical_hex ''#aBc'' = ''#aabbcc''"
    by (simp add: canonical_hex_def lower_def)
  from hex_round_trip[OF h] h(2) show ?thesis
    unfolding c by simp
qed

text \<open>
  Claim C4. \<open>parseHexColour\<close> takes the groups of the three-digit pattern when it
  matches, and those of the six-digit pattern when the first does not match and the second
  does. A three-digit match has one digit in each group; the digit is doubled and the pair
  read in base 16. A six-digit match has a pair in each group, read in base 16 as it is.
  Alpha is 1 in both.
\<close>

theorem parseHexColour_patterns:
  "(match3 hex = Some comps3 \<longrightarrow>
      parseHexColour hex =
        Inr \<lparr>hex_r = parseInt (comps3 ! 1 @ comps3 ! 1) 16,
             hex_g = parseInt (comps3 ! 2 @ comps3 ! 2) 16,
             hex_b = parseInt (comps3 ! 3 @ comps3 ! 3) 16, hex_a = Fin 1\<rparr>) \<and>
   (match3 hex = None \<and> match6 hex = Some comps6 \<longrightarrow>
      parseHexColour hex =
        Inr \<lparr>hex_r = parseInt (comps6 ! 1) 16, hex_g = parseInt (comps6 ! 2) 16,
             hex_b = parseInt (comps6 ! 3) 16, hex_a = Fin 1\<rparr>) \<and>
   (isHexDigit c1 \<and> isHexDigit c2 \<and> isHexDigit c3 \<longrightarrow>
      match3 [CHR ''#'', c1, c2, c3] = Some [[CHR ''#'', c1, c2, c3], [c1], [c2], [c3]] \<and>
      parseHexColour [CHR ''#'', c1, c2, c3] =
        Inr \<lparr>hex_r = Fin (of_int (digit_value c1 * 16 + digit_value c1)),
             hex_g = Fin (of_int (digit_value c2 * 16 + digit_value c2)),
             hex_b = Fin (of_int (digit_value c3 * 16 + digit_value c3)), hex_a = Fin 1\<rparr>) \<and>
   (isHexDigit c1 \<and> isHexDigit c2 \<and> isHexDigit c3 \<and>
    isHexDigit c4 \<and> isHexDigit c5 \<and> isHexDigit c6 \<longrightarrow>
      match3 [CHR ''#'', c1, c2, c3, c4, c5, c6] = None \<and>
      match6 [CHR ''#'', c1, c2, c3, c4, c5, c6] =
        Some [[CHR ''#'', c1, c2, c3, c4, c5, c6], [c1, c2], [c3, c4], [c5, c6]] \<and>
      parseHexColour [CHR ''#'', c1, c2, c3, c4, c5, c6] =
        Inr \<lparr>hex_r = Fin (of_int (digit_value c1 * 16 + digit_value c2)),
             hex_g = Fin (of_int (digit_value c3 * 16 + digit_value c4)),
             hex_b = Fin (of_int (digit_value c5 * 16 + digit_value c6)), hex_a = Fin 1\<rparr>)"
proof (intro conjI impI)
  assume "match3 hex = Some comps3"
  then show "parseHexColour hex =
        Inr \<lparr>hex_r = parseInt (comps3 ! 1 @ comps3 ! 1) 16,
             hex_g = parseInt (comps3 ! 2 @ comps3 ! 2) 16,
             hex_b = parseInt (comps3 ! 3 @ comps3 ! 3) 16, hex_a = Fin 1\<rparr>"
    by (simp add: parseHexColour_def)
next
  assume "match3 hex = None \<and> match6 hex = Some comps6"
  then show "parseHexColour hex =
        Inr \<lparr>hex_r = parseInt (comps6 ! 1) 16, hex_g = parseInt (comps6 ! 2) 16,
             hex_b = parseInt (comps6 ! 3) 16, hex_a = Fin 1\<rparr>"
    by (simp add: parseHexColour_def)
next
  assume "isHexDigit c1 \<and> isHexDigit c2 \<and> isHexDigit c3"
  then show "match3 [CHR ''#'', c1, c2, c3] = Some [[CHR ''#'', c1, c2, c3], [c1], [c2], [c3]]"
    by (simp add: match3_def)
next
  assume "isHexDigit c1 \<and> isHexDigit c2 \<and> isHexDigit c3"
  then show "parseHexColour [CHR ''#'', c1, c2, c3] =
        Inr \<lparr>hex_r = Fin (of_int (digit_value c1 * 16 + digit_value c1)),
             hex_g = Fin (of_int (digit_value c2 * 16 + digit_value c2)),
             hex_b = Fin (of_int (digit_value c3 * 16 + digit_value c3)), hex_a = Fin 1\<rparr>"
    by (simp add: parseHexColour_3 parseInt_hex_pair)
next
  assume "isHexDigit c1 \<and> isHexDigit c2 \<and> isHexDigit c3 \<and>
    isHexDigit c4 \<and> isHexDigit c5 \<and> isHexDigit c6"
  then show "match3 [CHR ''#'', c1, c2, c3, c4, c5, c6] = None"
    by (simp add: match3_def)
next
  assume "isHexDigit c1 \<and> isHexDigit c2 \<and> isHexDigit c3 \<and>
    isHexDigit c4 \<and> isHexDigit c5 \<and> isHexDigit c6"
  then show "match6 [CHR ''#'', c1, c2, c3, c4, c5, c6] =
        Some [[CHR ''#'', c1, c2, c3, c4, c5, c6], [c1, c2], [c3, c4], [c5, c6]]"
    by (simp add: match6_def)
next
  assume "isHexDigit c1 \<and> isHexDigit c2 \<and> isHexDigit c3 \<and>
    isHexDigit c4 \<and> isHexDigit c5 \<and> isHexDigit c6"
  then show "parseHexColour [CHR ''#'', c1, c2, c3, c4, c5, c6] =
        Inr \<lparr>hex_r = Fin (of_int (digit_value c1 * 16 + digit_value c2)),
             hex_g = Fin (of_int (digit_value c3 * 16 + digit_value c4)),
             hex_b = Fin (of_int (digit_value c5 * 16 + digit_value c6)), hex_a = Fin 1\<rparr>"
    by (simp add: parseHexColour_6 parseInt_hex_pair)
qed

theorem parseHexColour_patterns_witness:
  "match3 ''#1aF'' = Some [''#1aF'', ''1'', ''a'', ''F''] \<and>
   parseHexColour ''#1aF'' =
     Inr \<lparr>hex_r = Fin 17, hex_g = Fin 170, hex_b = Fin 255, hex_a = Fin 1\<rparr> \<and>
   match3 ''#10a0Ff'' = None \<and>
   match6 ''#10a0Ff'' = Some [''#10a0Ff'', ''10'', ''a0'', ''Ff''] \<and>
   parseHexColour ''#10a0Ff'' =
     Inr \<lparr>hex_r = Fin 16, hex_g = Fin 160, hex_b = Fin 255, hex_a = Fin 1\<rparr>"
proof -
  have h: "isHexDigit CHR ''1''" "isHexDigit CHR ''a''" "isHexDigit CHR ''F''"
    "isHexDigit CHR ''0''" "isHexDigit CHR ''f''"
    by (simp_all add: isHexDigit_def)
  have v: "digit_value CHR ''1'' = 1" "digit_value CHR ''a'' = 10" "digit_value CHR ''F'' = 15"
    "digit_value CHR ''0'' = 0" "digit_value CHR ''f'' = 15"
    by (simp_all add: digit_value_def)
  from parseHexColour_patterns[where hex = "''#1aF''" and ?comps3.0 = "[''#1aF'', ''1'', ''a'', ''F'']"
      and ?c1.0 = "CHR ''1''" and ?c2.0 = "CHR ''a''" and ?c3.0 = "CHR ''F''"]
    parseHexColour_patterns[where hex = "''#10a0Ff''"
      and ?comps6.0 = "[''#10a0Ff'', ''10'', ''a0'', ''Ff'']"
      and ?c1.0 = "CHR ''1''" and ?c2.0 = "CHR ''0''" and ?c3.0 = "CHR ''a''"
      and ?c4.0 = "CHR ''0''" and ?c5.0 = "CHR ''F''" and ?c6.0 = "CHR ''f''"]
  show ?thesis
    by (simp add: h v)
qed

text \<open>
  Claim C5. A string that starts with \<open>#\<close> and is not \<open>#\<close> followed by exactly three or
  exactly six hex digits is rejected by \<open>parseHexColour\<close> with the message
  \<open>Invalid hex colour\<close>, and so is the construction of a \<open>ColourRGB\<close> from it;
  \<open>#xyz\<close> is such a string.
\<close>

theorem invalid_hex_rejected:
  assumes "take 1 hex = ''#''"
    and "\<not> ((length hex = 4 \<or> length hex = 7) \<and> list_all isHexDigit (drop 1 hex))"
  shows "parseHexColour hex = Inl (Error (''Invalid hex colour: '' @ hex)) \<and>
         ColourRGB_new [Str hex] = Inl (Error (''Invalid hex colour: '' @ hex)) \<and>
         ColourRGB_new [Str ''#xyz''] = Inl (Error ''Invalid hex colour: #xyz'')"
proof -
  from assms have m: "match3 hex = None" "match6 hex = None"
    by (auto simp: match3_def match6_def)
  then have p: "parseHexColour hex = Inl (Error (''Invalid hex colour: '' @ hex))"
    by (simp add: parseHexColour_def)
  from assms(1) obtain ds where hex: "hex = CHR ''#'' # ds"
    by (cases hex) simp_all
  have n: "ColourRGB_new [Str hex] = Inl (Error (''Invalid hex colour: '' @ hex))"
    using p unfolding hex by (simp add: ColourRGB_new_hash)
  have x: "ColourRGB_new [Str ''#xyz''] = Inl (Error ''Invalid hex colour: #xyz'')"
    by code_simp
  from p n x show ?thesis by simp
qed

theorem invalid_hex_rejected_witness:
  "take 1 ''#12345'' = ''#'' \<and> length ''#12345'' = 6 \<and>
   parseHexColour ''#12345'' = Inl (Error ''Invalid hex colour: #12345'') \<and>
   ColourRGB_new [Str ''#12345''] = Inl (Error ''Invalid hex colour: #12345'')"
  using invalid_hex_rejected[of "''#12345''"] by simp

section \<open>The numeric path of the constructors\<close>

lemma one_not_bad: "\<not> isBadNum (Num (Fin 1)) (Fin 1)"
  by (simp add: isBadNum_Fin)

lemma zero_not_bad: "\<not> isBadNum (Num (Fin 0)) (Fin 1)"
  by (simp add: isBadNum_Fin)

lemma ColourRGB_new_3:
  "ColourRGB_new [r, g, b] = ColourRGB_check [r, g, b] r g b (Num (Fin 1))"
  by (simp add: ColourRGB_new_def element_def logical_or_def)

lemma ColourRGB_new_4:
  "ColourRGB_new [r, g, b, a] = ColourRGB_check [r, g, b, a] r g b (logical_or a (Num (Fin 1)))"
  by (simp add: ColourRGB_new_def element_def)

text \<open>
  Claim C2. In the numeric constructor an alpha that is left out or falsy becomes 1. So
  \<open>ColourRGB(r, g, b, 0)\<close>, for any \<open>r\<close>, \<open>g\<close>, \<open>b\<close> the check accepts, is an instance
  whose alpha is 1 and not 0; for the others the call throws, as the call without an
  alpha does. No call with alpha 0 returns an instance with alpha 0.
\<close>

theorem ColourRGB_falsy_alpha_is_one:
  "(\<not> ToBoolean a \<longrightarrow>
      ColourRGB_new [r, g, b, a] =
        (if isBadNum r (Fin 255) \<or> isBadNum g (Fin 255) \<or> isBadNum b (Fin 255)
         then Inl (thrown_Error ''Invalid ColourRGB arguments: '' (Array_join [r, g, b, a] '', ''))
         else Inr \<lparr>rgb_r = the_num r, rgb_g = the_num g, rgb_b = the_num b, rgb_a = Fin 1\<rparr>)) \<and>
   ColourRGB_new [r, g, b] =
     (if isBadNum r (Fin 255) \<or> isBadNum g (Fin 255) \<or> isBadNum b (Fin 255)
      then Inl (thrown_Error ''Invalid ColourRGB arguments: '' (Array_join [r, g, b] '', ''))
      else Inr \<lparr>rgb_r = the_num r, rgb_g = the_num g, rgb_b = the_num b, rgb_a = Fin 1\<rparr>) \<and>
   ColourRGB_new [r, g, b, Num (Fin 0)] =
     (if isBadNum r (Fin 255) \<or> isBadNum g (Fin 255) \<or> isBadNum b (Fin 255)
      then Inl (thrown_Error ''Invalid ColourRGB arguments: '' (Array_join [r, g, b, Num (Fin 0)] '', ''))
      else Inr \<lparr>rgb_r = the_num r, rgb_g = the_num g, rgb_b = the_num b, rgb_a = Fin 1\<rparr>) \<and>
   (\<forall>c. ColourRGB_new [r, g, b, Num (Fin 0)] = Inr c \<longrightarrow> rgb_a c = Fin 1 \<and> rgb_a c \<noteq> Fin 0)"
proof -
  have falsy: "ColourRGB_new [r, g, b, v] =
      (if isBadNum r (Fin 255) \<or> isBadNum g (Fin 255) \<or> isBadNum b (Fin 255)
       then Inl (thrown_Error ''Invalid ColourRGB arguments: '' (Array_join [r, g, b, v] '', ''))
       else Inr \<lparr>rgb_r = the_num r, rgb_g = the_num g, rgb_b = the_num b, rgb_a = Fin 1\<rparr>)"
    if "\<not> ToBoolean v" for v
  proof -
    from that have "logical_or v (Num (Fin 1)) = Num (Fin 1)"
      by (simp add: logical_or_def)
    then show ?thesis
      by (simp add: ColourRGB_new_4 ColourRGB_check_def one_not_bad)
  qed
  have omitted: "ColourRGB_new [r, g, b] =
      (if isBadNum r (Fin 255) \<or> isBadNum g (Fin 255) \<or> isBadNum b (Fin 255)
       then Inl (thrown_Error ''Invalid ColourRGB arguments: '' (Array_join [r, g, b] '', ''))
       else Inr \<lparr>rgb_r = the_num r, rgb_g = the_num g, rgb_b = the_num b, rgb_a = Fin 1\<rparr>)"
    by (simp add: ColourRGB_new_3 ColourRGB_check_def one_not_bad)
  have zero: "\<not> ToBoolean (Num (Fin 0))"
    by simp
  have never: "rgb_a c = Fin 1 \<and> rgb_a c \<noteq> Fin 0"
    if "ColourRGB_new [r, g, b, Num (Fin 0)] = Inr c" for c
    using that unfolding falsy[OF zero] by (auto split: if_splits)
  from falsy omitted falsy[OF zero] never show ?thesis
    by blast
qed

theorem ColourRGB_falsy_alpha_is_one_witness:
  "\<not> ToBoolean (Num (Fin 0)) \<and>
   ColourRGB_new [Num (Fin 255), Num (Fin 0), Num (Fin 0), Num (Fin 0)] =
     Inr \<lparr>rgb_r = Fin 255, rgb_g = Fin 0, rgb_b = Fin 0, rgb_a = Fin 1\<rparr> \<and>
   ColourRGB_new [Num (Fin 255), Num (Fin 0), Num (Fin 0)] =
     Inr \<lparr>rgb_r = Fin 255, rgb_g = Fin 0, rgb_b = Fin 0, rgb_a = Fin 1\<rparr> \<and>
   ColourRGB_new [Num (Fin 255), Num (Fin 0), Num (Fin 0), Undefined] =
     Inr \<lparr>rgb_r = Fin 255, rgb_g = Fin 0, rgb_b = Fin 0, rgb_a = Fin 1\<rparr>"
  using ColourRGB_falsy_alpha_is_one[of "Num (Fin 0)" "Num (Fin 255)" "Num (Fin 0)" "Num (Fin 0)"]
    ColourRGB_falsy_alpha_is_one[of Undefined "Num (Fin 255)" "Num (Fin 0)" "Num (Fin 0)"]
  by (simp add: isBadNum_Fin)

section \<open>ColourHSL\<close>

text \<open>
  Claim C8. The alpha of \<open>ColourHSL\<close> is a default parameter: an alpha that is passed is
  kept, 0 included, and only a missing one becomes 1. \<open>toString\<close> is \<open>hsl(h, s%, l%)\<close>
  when alpha is 1 and \<open>hsla(h, s%, l%, a)\<close> otherwise; \<open>ColourHSL(0, 100, 50)\<close> prints
  \<open>hsl(0, 100%, 50%)\<close> and \<open>ColourHSL(0, 100, 50, 0)\<close> prints \<open>hsla(0, 100%, 50%, 0)\<close>.
\<close>

theorem ColourHSL_default_alpha_and_toString:
  assumes "\<not> isBadNum (Num h) (Fin 360)" "\<not> isBadNum (Num s) (Fin 100)"
    and "\<not> isBadNum (Num l) (Fin 100)"
  shows "ColourHSL_new (Num h) (Num s) (Num l) (Num (Fin 0)) =
           Inr \<lparr>hsl_h = h, hsl_s = s, hsl_l = l, hsl_a = Fin 0\<rparr> \<and>
         (\<not> isBadNum (Num a) (Fin 1) \<longrightarrow>
            ColourHSL_new (Num h) (Num s) (Num l) (Num a) =
              Inr \<lparr>hsl_h = h, hsl_s = s, hsl_l = l, hsl_a = a\<rparr>) \<and>
         ColourHSL_new (Num h) (Num s) (Num l) Undefined =
           Inr \<lparr>hsl_h = h, hsl_s = s, hsl_l = l, hsl_a = Fin 1\<rparr> \<and>
         ColourHSL_toString \<lparr>hsl_h = h, hsl_s = s, hsl_l = l, hsl_a = Fin 1\<rparr> =
           ''hsl('' @ Number_toString 10 h @ '', '' @ Number_toString 10 s @ ''%, ''
             @ Number_toString 10 l @ ''%)'' \<and>
         (a \<noteq> Fin 1 \<longrightarrow>
            ColourHSL_toString \<lparr>hsl_h = h, hsl_s = s, hsl_l = l, hsl_a = a\<rparr> =
              ''hsla('' @ Number_toString 10 h @ '', '' @ Number_toString 10 s @ ''%, ''
                @ Number_toString 10 l @ ''%, '' @ Number_toString 10 a @ '')'') \<and>
         map_sum id ColourHSL_toString
           (ColourHSL_new (Num (Fin 0)) (Num (Fin 100)) (Num (Fin 50)) Undefined) =
           Inr ''hsl(0, 100%, 50%)'' \<and>
         map_sum id ColourHSL_toString
           (ColourHSL_new (Num (Fin 0)) (Num (Fin 100)) (Num (Fin 50)) (Num (Fin 0))) =
           Inr ''hsla(0, 100%, 50%, 0)''"
proof -
  have e1: "map_sum id ColourHSL_toString
      (ColourHSL_new (Num (Fin 0)) (Num (Fin 100)) (Num (Fin 50)) Undefined) =
      Inr ''hsl(0, 100%, 50%)''"
    by code_simp
  have e2: "map_sum id ColourHSL_toString
      (ColourHSL_new (Num (Fin 0)) (Num (Fin 100)) (Num (Fin 50)) (Num (Fin 0))) =
      Inr ''hsla(0, 100%, 50%, 0)''"
    by code_simp
  from assms show ?thesis
    unfolding e1 e2 by (simp add: ColourHSL_new_def ColourHSL_toString_def one_not_bad zero_not_bad)
qed

theorem ColourHSL_default_alpha_and_toString_witness:
  "\<not> isBadNum (Num (Fin 120)) (Fin 360) \<and> \<not> isBadNum (Num (Fin 25)) (Fin 100) \<and>
   \<not> isBadNum (Num (Fin 75)) (Fin 100) \<and>
   ColourHSL_new (Num (Fin 120)) (Num (Fin 25)) (Num (Fin 75)) (Num (Fin 0)) =
     Inr \<lparr>hsl_h = Fin 120, hsl_s = Fin 25, hsl_l = Fin 75, hsl_a = Fin 0\<rparr> \<and>
   ColourHSL_new (Num (Fin 120)) (Num (Fin 25)) (Num (Fin 75)) Undefined =
     Inr \<lparr>hsl_h = Fin 120, hsl_s = Fin 25, hsl_l = Fin 75, hsl_a = Fin 1\<rparr> \<and>
   ColourHSL_toString \<lparr>hsl_h = Fin 120, hsl_s = Fin 25, hsl_l = Fin 75, hsl_a = Fin 0\<rparr> =
     ''hsla(120, 25%, 75%, 0)''"
proof -
  have h: "\<not> isBadNum (Num (Fin 120)) (Fin 360)" "\<not> isBadNum (Num (Fin 25)) (Fin 100)"
    "\<not> isBadNum (Num (Fin 75)) (Fin 100)"
    by (simp_all add: isBadNum_Fin)
  have n: "Number_toString 10 (Fin 120) = ''120''" "Number_toString 10 (Fin 25) = ''25''"
    "Number_toString 10 (Fin 75) = ''75''" "Number_toString 10 (Fin 0) = ''0''"
    by code_simp+
  from ColourHSL_default_alpha_and_toString[OF h, of "Fin 0"] h show ?thesis
    by (simp add: n del: Number_toString.simps)
qed


section \<open>alpha and its receiver\<close>

lemma ColourRGB_alpha_channels:
  assumes "ColourRGB_alpha this alpha = Inr c"
  shows "rgb_r c = rgb_r this \<and> rgb_g c = rgb_g this \<and> rgb_b c = rgb_b this"
  using assms
  by (auto simp: ColourRGB_alpha_def ColourRGB_new_4 ColourRGB_check_def split: if_splits)

lemma ColourHSL_alpha_channels:
  assumes "ColourHSL_alpha this alpha = Inr c"
  shows "hsl_h c = hsl_h this \<and> hsl_s c = hsl_s this \<and> hsl_l c = hsl_l this"
  using assms
  by (auto simp: ColourHSL_alpha_def ColourHSL_new_def Let_def split: if_splits)

lemma new_object_frame:
  assumes "new_object heap constructed = (res, heap')"
  shows "(\<forall>p<length heap. heap' ! p = heap ! p) \<and>
         (case res of
            Inl e \<Rightarrow> constructed = Inl e \<and> heap' = heap
          | Inr new \<Rightarrow> new = length heap \<and> new < length heap' \<and> constructed = Inr (heap' ! new))"
  using assms by (auto simp: new_object_def nth_append split: sum.splits)

lemma alpha_frame:
  "(this < length heap \<and> ColourRGB_alpha_at heap this alpha = (res, heap') \<longrightarrow>
      heap' ! this = heap ! this \<and>
      ColourRGB_toString (heap' ! this) = ColourRGB_toString (heap ! this) \<and>
      (\<forall>p<length heap. heap' ! p = heap ! p) \<and>
      (case res of
         Inl e \<Rightarrow> heap' = heap
       | Inr new \<Rightarrow>
           new \<noteq> this \<and> new < length heap' \<and>
           rgb_r (heap' ! new) = rgb_r (heap ! this) \<and>
           rgb_g (heap' ! new) = rgb_g (heap ! this) \<and>
           rgb_b (heap' ! new) = rgb_b (heap ! this))) \<and>
   (that < length hheap \<and> ColourHSL_alpha_at hheap that alpha = (hres, hheap') \<longrightarrow>
      hheap' ! that = hheap ! that \<and>
      ColourHSL_toString (hheap' ! that) = ColourHSL_toString (hheap ! that) \<and>
      (\<forall>p<length hheap. hheap' ! p = hheap ! p) \<and>
      (case hres of
         Inl e \<Rightarrow> hheap' = hheap
       | Inr new \<Rightarrow>
           new \<noteq> that \<and> new < length hheap' \<and>
           hsl_h (hheap' ! new) = hsl_h (hheap ! that) \<and>
           hsl_s (hheap' ! new) = hsl_s (hheap ! that) \<and>
           hsl_l (hheap' ! new) = hsl_l (hheap ! that)))"
proof (rule conjI[OF impI impI])
  assume a: "this < length heap \<and> ColourRGB_alpha_at heap this alpha = (res, heap')"
  then have f: "(\<forall>p<length heap. heap' ! p = heap ! p) \<and>
         (case res of
            Inl e \<Rightarrow> ColourRGB_alpha (heap ! this) alpha = Inl e \<and> heap' = heap
          | Inr new \<Rightarrow> new = length heap \<and> new < length heap' \<and>
              ColourRGB_alpha (heap ! this) alpha = Inr (heap' ! new))"
    unfolding ColourRGB_alpha_at_def by (intro new_object_frame) simp
  with a have same: "heap' ! this = heap ! this" by simp
  show "heap' ! this = heap ! this \<and>
      ColourRGB_toString (heap' ! this) = ColourRGB_toString (heap ! this) \<and>
      (\<forall>p<length heap. heap' ! p = heap ! p) \<and>
      (case res of
         Inl e \<Rightarrow> heap' = heap
       | Inr new \<Rightarrow>
           new \<noteq> this \<and> new < length heap' \<and>
           rgb_r (heap' ! new) = rgb_r (heap ! this) \<and>
           rgb_g (heap' ! new) = rgb_g (heap ! this) \<and>
           rgb_b (heap' ! new) = rgb_b (heap ! this))"
  proof (cases res)
    case (Inl e)
    with f same show ?thesis by simp
  next
    case (Inr new)
    with f have "ColourRGB_alpha (heap ! this) alpha = Inr (heap' ! new)" "new = length heap"
      "new < length heap'" by simp_all
    with ColourRGB_alpha_channels[of "heap ! this" alpha "heap' ! new"] a f same Inr
    show ?thesis by simp
  qed
next
  assume a: "that < length hheap \<and> ColourHSL_alpha_at hheap that alpha = (hres, hheap')"
  then have f: "(\<forall>p<length hheap. hheap' ! p = hheap ! p) \<and>
         (case hres of
            Inl e \<Rightarrow> ColourHSL_alpha (hheap ! that) alpha = Inl e \<and> hheap' = hheap
          | Inr new \<Rightarrow> new = length hheap \<and> new < length hheap' \<and>
              ColourHSL_alpha (hheap ! that) alpha = Inr (hheap' ! new))"
    unfolding ColourHSL_alpha_at_def by (intro new_object_frame) simp
  with a have same: "hheap' ! that = hheap ! that" by simp
  show "hheap' ! that = hheap ! that \<and>
      ColourHSL_toString (hheap' ! that) = ColourHSL_toString (hheap ! that) \<and>
      (\<forall>p<length hheap. hheap' ! p = hheap ! p) \<and>
      (case hres of
         Inl e \<Rightarrow> hheap' = hheap
       | Inr new \<Rightarrow>
           new \<noteq> that \<and> new < length hheap' \<and>
           hsl_h (hheap' ! new) = hsl_h (hheap ! that) \<and>
           hsl_s (hheap' ! new) = hsl_s (hheap ! that) \<and>
           hsl_l (hheap' ! new) = hsl_l (hheap ! that))"
  proof (cases hres)
    case (Inl e)
    with f same show ?thesis by simp
  next
    case (Inr new)
    with f have "ColourHSL_alpha (hheap ! that) alpha = Inr (hheap' ! new)" "new = length hheap"
      "new < length hheap'" by simp_all
    with ColourHSL_alpha_channels[of "hheap ! that" alpha "hheap' ! new"] a f same Inr
    show ?thesis by simp
  qed
qed

lemma not_isBadNum_Num: "\<not> isBadNum v mx \<Longrightarrow> Num (the_num v) = v"
  by (cases v) (simp_all add: isBadNum_def split: if_splits)

lemma ColourRGB_check_valid:
  assumes "ColourRGB_check args r g b a = Inr c"
  shows "\<not> isBadNum (Num (rgb_r c)) (Fin 255) \<and> \<not> isBadNum (Num (rgb_g c)) (Fin 255) \<and>
         \<not> isBadNum (Num (rgb_b c)) (Fin 255) \<and> \<not> isBadNum (Num (rgb_a c)) (Fin 1)"
  using assms by (auto simp: ColourRGB_check_def not_isBadNum_Num split: if_splits)

lemma ColourRGB_new_valid:
  assumes "ColourRGB_new args = Inr c"
  shows "\<not> isBadNum (Num (rgb_r c)) (Fin 255) \<and> \<not> isBadNum (Num (rgb_g c)) (Fin 255) \<and>
         \<not> isBadNum (Num (rgb_b c)) (Fin 255) \<and> \<not> isBadNum (Num (rgb_a c)) (Fin 1)"
proof -
  from assms obtain r g b a where "ColourRGB_check args r g b a = Inr c"
    unfolding ColourRGB_new_def by (auto split: if_splits sum.splits)
  then show ?thesis by (rule ColourRGB_check_valid)
qed

lemma ColourHSL_new_valid:
  assumes "ColourHSL_new h s l a0 = Inr d"
  shows "\<not> isBadNum (Num (hsl_h d)) (Fin 360) \<and> \<not> isBadNum (Num (hsl_s d)) (Fin 100) \<and>
         \<not> isBadNum (Num (hsl_l d)) (Fin 100) \<and> \<not> isBadNum (Num (hsl_a d)) (Fin 1)"
  using assms
  by (auto simp: ColourHSL_new_def Let_def not_isBadNum_Num split: if_splits)

lemma ColourRGB_alpha_returns:
  assumes "\<not> isBadNum (Num (rgb_r c)) (Fin 255)" "\<not> isBadNum (Num (rgb_g c)) (Fin 255)"
    and "\<not> isBadNum (Num (rgb_b c)) (Fin 255)" "\<not> isBadNum (Num a) (Fin 1)"
  shows "ColourRGB_alpha c (Num a) =
     Inr \<lparr>rgb_r = rgb_r c, rgb_g = rgb_g c, rgb_b = rgb_b c,
          rgb_a = (if a = NaN \<or> a = Fin 0 then Fin 1 else a)\<rparr>"
  using assms
  by (simp add: ColourRGB_alpha_def ColourRGB_new_4 ColourRGB_check_def logical_or_def one_not_bad)

lemma ColourHSL_alpha_returns:
  assumes "\<not> isBadNum (Num (hsl_h d)) (Fin 360)" "\<not> isBadNum (Num (hsl_s d)) (Fin 100)"
    and "\<not> isBadNum (Num (hsl_l d)) (Fin 100)" "\<not> isBadNum (Num a) (Fin 1)"
  shows "ColourHSL_alpha d (Num a) =
     Inr \<lparr>hsl_h = hsl_h d, hsl_s = hsl_s d, hsl_l = hsl_l d, hsl_a = a\<rparr>"
  using assms
  by (simp add: ColourHSL_alpha_def ColourHSL_new_def)

text \<open>
  Claim C9. In both classes \<open>alpha\<close> leaves every object there was as it was, the
  receiver among them, so the receiver prints after the call what it printed before. For a
  receiver whose channels pass the constructor's check, as those of every constructed
  instance do, and an alpha that passes it, \<open>alpha\<close> returns: the result is an object
  that was not there before, with the receiver's three colour channels and the alpha (in
  \<open>ColourRGB\<close> 1 for a falsy one). When \<open>alpha\<close> throws, nothing has changed.
\<close>

theorem alpha_leaves_receiver:
  "(this < length heap \<and> ColourRGB_alpha_at heap this alpha = (res, heap') \<longrightarrow>
      heap' ! this = heap ! this \<and>
      ColourRGB_toString (heap' ! this) = ColourRGB_toString (heap ! this) \<and>
      (\<forall>p<length heap. heap' ! p = heap ! p) \<and>
      (case res of
         Inl e \<Rightarrow> heap' = heap
       | Inr new \<Rightarrow>
           new \<noteq> this \<and> new < length heap' \<and>
           rgb_r (heap' ! new) = rgb_r (heap ! this) \<and>
           rgb_g (heap' ! new) = rgb_g (heap ! this) \<and>
           rgb_b (heap' ! new) = rgb_b (heap ! this))) \<and>
   (that < length hheap \<and> ColourHSL_alpha_at hheap that alpha = (hres, hheap') \<longrightarrow>
      hheap' ! that = hheap ! that \<and>
      ColourHSL_toString (hheap' ! that) = ColourHSL_toString (hheap ! that) \<and>
      (\<forall>p<length hheap. hheap' ! p = hheap ! p) \<and>
      (case hres of
         Inl e \<Rightarrow> hheap' = hheap
       | Inr new \<Rightarrow>
           new \<noteq> that \<and> new < length hheap' \<and>
           hsl_h (hheap' ! new) = hsl_h (hheap ! that) \<and>
           hsl_s (hheap' ! new) = hsl_s (hheap ! that) \<and>
           hsl_l (hheap' ! new) = hsl_l (hheap ! that))) \<and>
   (\<not> isBadNum (Num (rgb_r (heap ! this))) (Fin 255) \<and>
    \<not> isBadNum (Num (rgb_g (heap ! this))) (Fin 255) \<and>
    \<not> isBadNum (Num (rgb_b (heap ! this))) (Fin 255) \<and> \<not> isBadNum (Num a) (Fin 1) \<longrightarrow>
      ColourRGB_alpha_at heap this (Num a) =
        (Inr (length heap),
         heap @ [\<lparr>rgb_r = rgb_r (heap ! this), rgb_g = rgb_g (heap ! this),
                  rgb_b = rgb_b (heap ! this),
                  rgb_a = (if a = NaN \<or> a = Fin 0 then Fin 1 else a)\<rparr>])) \<and>
   (\<not> isBadNum (Num (hsl_h (hheap ! that))) (Fin 360) \<and>
    \<not> isBadNum (Num (hsl_s (hheap ! that))) (Fin 100) \<and>
    \<not> isBadNum (Num (hsl_l (hheap ! that))) (Fin 100) \<and> \<not> isBadNum (Num a) (Fin 1) \<longrightarrow>
      ColourHSL_alpha_at hheap that (Num a) =
        (Inr (length hheap),
         hheap @ [\<lparr>hsl_h = hsl_h (hheap ! that), hsl_s = hsl_s (hheap ! that),
                   hsl_l = hsl_l (hheap ! that), hsl_a = a\<rparr>])) \<and>
   (ColourRGB_new args = Inr c \<longrightarrow>
      \<not> isBadNum (Num (rgb_r c)) (Fin 255) \<and> \<not> isBadNum (Num (rgb_g c)) (Fin 255) \<and>
      \<not> isBadNum (Num (rgb_b c)) (Fin 255) \<and> \<not> isBadNum (Num (rgb_a c)) (Fin 1)) \<and>
   (ColourHSL_new h s l a0 = Inr d \<longrightarrow>
      \<not> isBadNum (Num (hsl_h d)) (Fin 360) \<and> \<not> isBadNum (Num (hsl_s d)) (Fin 100) \<and>
      \<not> isBadNum (Num (hsl_l d)) (Fin 100) \<and> \<not> isBadNum (Num (hsl_a d)) (Fin 1))"
proof -
  note frame = alpha_frame[of this heap alpha res heap' that hheap hres hheap']
  have rgb: "ColourRGB_alpha_at heap this (Num a) =
        (Inr (length heap),
         heap @ [\<lparr>rgb_r = rgb_r (heap ! this), rgb_g = rgb_g (heap ! this),
                  rgb_b = rgb_b (heap ! this),
                  rgb_a = (if a = NaN \<or> a = Fin 0 then Fin 1 else a)\<rparr>])"
    if "\<not> isBadNum (Num (rgb_r (heap ! this))) (Fin 255) \<and>
        \<not> isBadNum (Num (rgb_g (heap ! this))) (Fin 255) \<and>
        \<not> isBadNum (Num (rgb_b (heap ! this))) (Fin 255) \<and> \<not> isBadNum (Num a) (Fin 1)"
  proof -
    from that have "ColourRGB_alpha (heap ! this) (Num a) =
        Inr \<lparr>rgb_r = rgb_r (heap ! this), rgb_g = rgb_g (heap ! this),
             rgb_b = rgb_b (heap ! this),
             rgb_a = (if a = NaN \<or> a = Fin 0 then Fin 1 else a)\<rparr>"
      by (intro ColourRGB_alpha_returns) simp_all
    then show ?thesis
      unfolding ColourRGB_alpha_at_def by (simp only: new_object_def sum.case)
  qed
  have hsl: "ColourHSL_alpha_at hheap that (Num a) =
        (Inr (length hheap),
         hheap @ [\<lparr>hsl_h = hsl_h (hheap ! that), hsl_s = hsl_s (hheap ! that),
                   hsl_l = hsl_l (hheap ! that), hsl_a = a\<rparr>])"
    if "\<not> isBadNum (Num (hsl_h (hheap ! that))) (Fin 360) \<and>
        \<not> isBadNum (Num (hsl_s (hheap ! that))) (Fin 100) \<and>
        \<not> isBadNum (Num (hsl_l (hheap ! that))) (Fin 100) \<and> \<not> isBadNum (Num a) (Fin 1)"
  proof -
    from that have "ColourHSL_alpha (hheap ! that) (Num a) =
        Inr \<lparr>hsl_h = hsl_h (hheap ! that), hsl_s = hsl_s (hheap ! that),
             hsl_l = hsl_l (hheap ! that), hsl_a = a\<rparr>"
      by (intro ColourHSL_alpha_returns) simp_all
    then show ?thesis
      unfolding ColourHSL_alpha_at_def by (simp only: new_object_def sum.case)
  qed
  from frame rgb hsl ColourRGB_new_valid[of args c] ColourHSL_new_valid[of h s l a0 d]
  show ?thesis
    by (intro conjI impI) blast+
qed

theorem alpha_leaves_receiver_witness:
  "ColourRGB_new [Str ''#f00''] =
     Inr \<lparr>rgb_r = Fin 255, rgb_g = Fin 0, rgb_b = Fin 0, rgb_a = Fin 1\<rparr> \<and>
   ColourRGB_alpha_at [\<lparr>rgb_r = Fin 255, rgb_g = Fin 0, rgb_b = Fin 0, rgb_a = Fin 1\<rparr>] 0
       (Num (Fin (1 / 2))) =
     (Inr 1, [\<lparr>rgb_r = Fin 255, rgb_g = Fin 0, rgb_b = Fin 0, rgb_a = Fin 1\<rparr>,
              \<lparr>rgb_r = Fin 255, rgb_g = Fin 0, rgb_b = Fin 0, rgb_a = Fin (1 / 2)\<rparr>]) \<and>
   ColourRGB_toString
     ([\<lparr>rgb_r = Fin 255, rgb_g = Fin 0, rgb_b = Fin 0, rgb_a = Fin 1\<rparr>,
       \<lparr>rgb_r = Fin 255, rgb_g = Fin 0, rgb_b = Fin 0, rgb_a = Fin (1 / 2)\<rparr>] ! 0) =
     ColourRGB_toString \<lparr>rgb_r = Fin 255, rgb_g = Fin 0, rgb_b = Fin 0, rgb_a = Fin 1\<rparr> \<and>
   ColourHSL_new (Num (Fin 0)) (Num (Fin 100)) (Num (Fin 50)) Undefined =
     Inr \<lparr>hsl_h = Fin 0, hsl_s = Fin 100, hsl_l = Fin 50, hsl_a = Fin 1\<rparr> \<and>
   ColourHSL_alpha_at [\<lparr>hsl_h = Fin 0, hsl_s = Fin 100, hsl_l = Fin 50, hsl_a = Fin 1\<rparr>] 0
       (Num (Fin (1 / 2))) =
     (Inr 1, [\<lparr>hsl_h = Fin 0, hsl_s = Fin 100, hsl_l = Fin 50, hsl_a = Fin 1\<rparr>,
              \<lparr>hsl_h = Fin 0, hsl_s = Fin 100, hsl_l = Fin 50, hsl_a = Fin (1 / 2)\<rparr>]) \<and>
   ColourHSL_toString
     ([\<lparr>hsl_h = Fin 0, hsl_s = Fin 100, hsl_l = Fin 50, hsl_a = Fin 1\<rparr>,
       \<lparr>hsl_h = Fin 0, hsl_s = Fin 100, hsl_l = Fin 50, hsl_a = Fin (1 / 2)\<rparr>] ! 0) =
     ColourHSL_toString \<lparr>hsl_h = Fin 0, hsl_s = Fin 100, hsl_l = Fin 50, hsl_a = Fin 1\<rparr> \<and>
   ColourHSL_toString \<lparr>hsl_h = Fin 0, hsl_s = Fin 100, hsl_l = Fin 50, hsl_a = Fin 1\<rparr> =
     ''hsl(0, 100%, 50%)'' \<and>
   ColourHSL_toString \<lparr>hsl_h = Fin 0, hsl_s = Fin 100, hsl_l = Fin 50, hsl_a = Fin (1 / 2)\<rparr> =
     ''hsla(0, 100%, 50%, 0.5)'' \<and>
   ColourHSL_alpha_at [\<lparr>hsl_h = Fin 0, hsl_s = Fin 100, hsl_l = Fin 50, hsl_a = Fin 1\<rparr>] 0
       (Num (Fin 2)) =
     (Inl (Error ''Invalid ColourHSL arguments: 0, 100, 50, 2''),
      [\<lparr>hsl_h = Fin 0, hsl_s = Fin 100, hsl_l = Fin 50, hsl_a = Fin 1\<rparr>])"
proof -
  let ?red = "\<lparr>rgb_r = Fin 255, rgb_g = Fin 0, rgb_b = Fin 0, rgb_a = Fin 1\<rparr>"
  let ?half = "\<lparr>rgb_r = Fin 255, rgb_g = Fin 0, rgb_b = Fin 0, rgb_a = Fin (1 / 2)\<rparr>"
  let ?hsl = "\<lparr>hsl_h = Fin 0, hsl_s = Fin 100, hsl_l = Fin 50, hsl_a = Fin 1\<rparr>"
  let ?hhalf = "\<lparr>hsl_h = Fin 0, hsl_s = Fin 100, hsl_l = Fin 50, hsl_a = Fin (1 / 2)\<rparr>"
  note t = alpha_leaves_receiver[where heap = "[?red]" and this = 0 and a = "Fin (1 / 2)"
      and alpha = "Num (Fin (1 / 2))" and res = "Inr 1" and heap' = "[?red, ?half]"
      and hheap = "[?hsl]" and that = 0 and hres = "Inr 1" and hheap' = "[?hsl, ?hhalf]"
      and args = "[Str ''#f00'']" and c = ?red
      and h = "Num (Fin 0)" and s = "Num (Fin 100)" and l = "Num (Fin 50)" and ?a0.0 = Undefined
      and d = ?hsl]
  have valid: "\<not> isBadNum (Num (Fin 255)) (Fin 255)" "\<not> isBadNum (Num (Fin 0)) (Fin 255)"
    "\<not> isBadNum (Num (Fin (1 / 2))) (Fin 1)" "\<not> isBadNum (Num (Fin 0)) (Fin 360)"
    "\<not> isBadNum (Num (Fin 100)) (Fin 100)" "\<not> isBadNum (Num (Fin 50)) (Fin 100)"
    by (simp_all add: isBadNum_Fin)
  have made: "ColourRGB_new [Str ''#f00''] = Inr ?red"
    "ColourHSL_new (Num (Fin 0)) (Num (Fin 100)) (Num (Fin 50)) Undefined = Inr ?hsl"
    by code_simp+
  have r: "ColourRGB_alpha_at [?red] 0 (Num (Fin (1 / 2))) = (Inr 1, [?red, ?half])"
    using t valid by simp
  have h: "ColourHSL_alpha_at [?hsl] 0 (Num (Fin (1 / 2))) = (Inr 1, [?hsl, ?hhalf])"
    using t valid by simp
  have same: "ColourRGB_toString ([?red, ?half] ! 0) = ColourRGB_toString ?red"
    "ColourHSL_toString ([?hsl, ?hhalf] ! 0) = ColourHSL_toString ?hsl"
    using t r h by simp_all
  have printed: "ColourHSL_toString ?hsl = ''hsl(0, 100%, 50%)''"
    "ColourHSL_toString ?hhalf = ''hsla(0, 100%, 50%, 0.5)''"
    by code_simp+
  have thrown: "ColourHSL_alpha_at [?hsl] 0 (Num (Fin 2)) =
      (Inl (Error ''Invalid ColourHSL arguments: 0, 100, 50, 2''), [?hsl])"
    by code_simp
  from made r h same printed thrown show ?thesis
    by (intro conjI)
qed


section \<open>Channels that are not whole numbers in range\<close>

text \<open>
  Claim C10, as the code has it. NaN passes \<open>isBadNum\<close> whatever the maximum, so
  \<open>ColourRGB(NaN, 0, 0)\<close> and \<open>ColourHSL(NaN, 0, 0)\<close> are constructed without an error.
  The second prints \<open>hsl(NaN, 0%, 0%)\<close>, which contains \<open>NaN\<close>. The first prints
  \<open>#aN0000\<close>, which does not: \<open>padHex\<close> keeps the last two characters of \<open>00NaN\<close>.
\<close>

theorem NaN_passes_isBadNum:
  "\<not> isBadNum (Num NaN) mx \<and>
   ColourRGB_new [Num NaN, Num (Fin 0), Num (Fin 0)] =
     Inr \<lparr>rgb_r = NaN, rgb_g = Fin 0, rgb_b = Fin 0, rgb_a = Fin 1\<rparr> \<and>
   ColourHSL_new (Num NaN) (Num (Fin 0)) (Num (Fin 0)) Undefined =
     Inr \<lparr>hsl_h = NaN, hsl_s = Fin 0, hsl_l = Fin 0, hsl_a = Fin 1\<rparr> \<and>
   ColourHSL_toString \<lparr>hsl_h = NaN, hsl_s = Fin 0, hsl_l = Fin 0, hsl_a = Fin 1\<rparr> =
     ''hsl(NaN, 0%, 0%)'' \<and>
   String_includes ''hsl(NaN, 0%, 0%)'' ''NaN'' \<and>
   ColourRGB_toString \<lparr>rgb_r = NaN, rgb_g = Fin 0, rgb_b = Fin 0, rgb_a = Fin 1\<rparr> =
     ''#aN0000'' \<and>
   \<not> String_includes ''#aN0000'' ''NaN''"
proof -
  have 1: "\<not> isBadNum (Num NaN) mx"
    by (cases mx) (simp_all add: isBadNum_def)
  have 2: "ColourRGB_new [Num NaN, Num (Fin 0), Num (Fin 0)] =
     Inr \<lparr>rgb_r = NaN, rgb_g = Fin 0, rgb_b = Fin 0, rgb_a = Fin 1\<rparr>"
    by code_simp
  have 3: "ColourHSL_new (Num NaN) (Num (Fin 0)) (Num (Fin 0)) Undefined =
     Inr \<lparr>hsl_h = NaN, hsl_s = Fin 0, hsl_l = Fin 0, hsl_a = Fin 1\<rparr>"
    by code_simp
  have 4: "ColourHSL_toString \<lparr>hsl_h = NaN, hsl_s = Fin 0, hsl_l = Fin 0, hsl_a = Fin 1\<rparr> =
     ''hsl(NaN, 0%, 0%)''"
    by code_simp
  have 5: "String_includes ''hsl(NaN, 0%, 0%)'' ''NaN''"
    by simp
  have 6: "ColourRGB_toString \<lparr>rgb_r = NaN, rgb_g = Fin 0, rgb_b = Fin 0, rgb_a = Fin 1\<rparr> =
     ''#aN0000''"
    by code_simp
  have 10: "\<not> String_includes ''#aN0000'' ''NaN''"
    by simp
  from 1 2 3 4 5 6 10 show ?thesis by (intro conjI)
qed

theorem NaN_passes_isBadNum_witness:
  "isBadNum (Num NaN) (Fin 255) = False \<and> isBadNum (Num NaN) (Fin 1) = False \<and>
   isBadNum (Num NaN) (Fin 360) = False \<and> isBadNum (Num NaN) (Fin 100) = False"
  using NaN_passes_isBadNum[of "Fin 255"] NaN_passes_isBadNum[of "Fin 1"]
    NaN_passes_isBadNum[of "Fin 360"] NaN_passes_isBadNum[of "Fin 100"]
  by blast

text \<open>
  Against claim C10 as stated: the output of \<open>ColourRGB(NaN, 0, 0).toString()\<close> does not
  contain \<open>NaN\<close>.
\<close>

theorem NaN_hex_form_counterexample:
  "ColourRGB_new [Num NaN, Num (Fin 0), Num (Fin 0)] =
     Inr \<lparr>rgb_r = NaN, rgb_g = Fin 0, rgb_b = Fin 0, rgb_a = Fin 1\<rparr> \<and>
   ColourRGB_toString \<lparr>rgb_r = NaN, rgb_g = Fin 0, rgb_b = Fin 0, rgb_a = Fin 1\<rparr> = ''#aN0000'' \<and>
   \<not> String_includes
       (ColourRGB_toString \<lparr>rgb_r = NaN, rgb_g = Fin 0, rgb_b = Fin 0, rgb_a = Fin 1\<rparr>) ''NaN''"
  by code_simp

section \<open>An alpha of 0 in ColourRGB\<close>

text \<open>
  For a truthy alpha in range the constructor and \<open>alpha\<close> keep what they are given.
\<close>

lemma alpha_round_trip_truthy:
  assumes "\<not> isBadNum (Num r) (Fin 255)" "\<not> isBadNum (Num g) (Fin 255)"
    and "\<not> isBadNum (Num b) (Fin 255)" "\<not> isBadNum (Num a) (Fin 1)" "ToBoolean (Num a)"
  shows "ColourRGB_new [Num r, Num g, Num b, Num a] =
           Inr \<lparr>rgb_r = r, rgb_g = g, rgb_b = b, rgb_a = a\<rparr>"
    and "ColourRGB_alpha \<lparr>rgb_r = r, rgb_g = g, rgb_b = b, rgb_a = a\<rparr> (Num a) =
           Inr \<lparr>rgb_r = r, rgb_g = g, rgb_b = b, rgb_a = a\<rparr>"
  using assms
  by (simp_all add: ColourRGB_alpha_def ColourRGB_new_4 ColourRGB_check_def logical_or_def)

text \<open>
  Claim C1 has \<open>ColourRGB(r, g, b, a).alpha(a).toString()\<close> print \<open>rgba(r, g, b, a)\<close> for
  every alpha in [0, 1] other than 1. At alpha 0 the code prints the hex form: the
  constructor makes the 0 a 1, \<open>alpha(0)\<close> does it again, and
  \<open>ColourRGB(255, 0, 0, 0).alpha(0)\<close> prints \<open>#ff0000\<close>, not \<open>rgba(255, 0, 0, 0)\<close>.
\<close>

theorem alpha_zero_prints_hex:
  "ColourRGB_new [Num (Fin 255), Num (Fin 0), Num (Fin 0), Num (Fin 0)] =
     Inr \<lparr>rgb_r = Fin 255, rgb_g = Fin 0, rgb_b = Fin 0, rgb_a = Fin 1\<rparr> \<and>
   ColourRGB_alpha \<lparr>rgb_r = Fin 255, rgb_g = Fin 0, rgb_b = Fin 0, rgb_a = Fin 1\<rparr> (Num (Fin 0)) =
     Inr \<lparr>rgb_r = Fin 255, rgb_g = Fin 0, rgb_b = Fin 0, rgb_a = Fin 1\<rparr> \<and>
   ColourRGB_toString \<lparr>rgb_r = Fin 255, rgb_g = Fin 0, rgb_b = Fin 0, rgb_a = Fin 1\<rparr> = ''#ff0000'' \<and>
   ''#ff0000'' \<noteq> ''rgba(255, 0, 0, 0)''"
proof -
  let ?red = "\<lparr>rgb_r = Fin 255, rgb_g = Fin 0, rgb_b = Fin 0, rgb_a = Fin 1\<rparr>"
  have constructed: "ColourRGB_new [Num (Fin 255), Num (Fin 0), Num (Fin 0), Num (Fin 0)] = Inr ?red"
    by code_simp
  have again: "ColourRGB_alpha ?red (Num (Fin 0)) = Inr ?red"
    unfolding ColourRGB_alpha_def by (simp add: constructed)
  have printed: "ColourRGB_toString ?red = ''#ff0000''"
    by code_simp
  from constructed again printed show ?thesis
    by simp
qed


section \<open>toString of ColourRGB\<close>

lemma digit_char_hex:
  assumes "0 \<le> d" "d < 16"
  shows "digit_char d \<in> set ''0123456789abcdef''"
proof -
  have "\<forall>d\<in>set [0..15]. digit_char d \<in> set ''0123456789abcdef''"
    by code_simp
  moreover from assms have "d \<in> set [0..15]" by simp
  ultimately show ?thesis by blast
qed

text \<open>
  Claim C7, as the code has it. With alpha 1 and channels that are whole numbers from 0 to
  255, \<open>toString\<close> is \<open>#\<close> and six lowercase hex digits, two for each channel, the first a
  0 for a channel below 16. With any other alpha it is \<open>rgba(r, g, b, a)\<close>, every number
  as the host prints it in decimal, which for those whole numbers is their decimal digits;
  \<open>ColourRGB(255, 0, 0, 0.5)\<close> prints \<open>rgba(255, 0, 0, 0.5)\<close>.
\<close>

theorem ColourRGB_toString_forms:
  "(0 \<le> r \<and> r \<le> 255 \<and> 0 \<le> g \<and> g \<le> 255 \<and> 0 \<le> b \<and> b \<le> 255 \<longrightarrow>
      ColourRGB_toString
        \<lparr>rgb_r = Fin (of_int r), rgb_g = Fin (of_int g), rgb_b = Fin (of_int b), rgb_a = Fin 1\<rparr> =
        [CHR ''#'', digit_char (r div 16), digit_char (r mod 16),
         digit_char (g div 16), digit_char (g mod 16),
         digit_char (b div 16), digit_char (b mod 16)] \<and>
      list_all (\<lambda>c. c \<in> set ''0123456789abcdef'')
        [digit_char (r div 16), digit_char (r mod 16), digit_char (g div 16),
         digit_char (g mod 16), digit_char (b div 16), digit_char (b mod 16)] \<and>
      Number_toString 10 (Fin (of_int r)) = digits 10 r \<and>
      Number_toString 10 (Fin (of_int g)) = digits 10 g \<and>
      Number_toString 10 (Fin (of_int b)) = digits 10 b) \<and>
   (a \<noteq> Fin 1 \<longrightarrow>
      ColourRGB_toString \<lparr>rgb_r = x, rgb_g = y, rgb_b = z, rgb_a = a\<rparr> =
        ''rgba('' @ Number_toString 10 x @ '', '' @ Number_toString 10 y @ '', ''
          @ Number_toString 10 z @ '', '' @ Number_toString 10 a @ '')'') \<and>
   map_sum id ColourRGB_toString
     (ColourRGB_new [Num (Fin 255), Num (Fin 0), Num (Fin 0), Num (Fin (1 / 2))]) =
     Inr ''rgba(255, 0, 0, 0.5)''"
proof -
  have whole: "ColourRGB_toString
        \<lparr>rgb_r = Fin (of_int r), rgb_g = Fin (of_int g), rgb_b = Fin (of_int b), rgb_a = Fin 1\<rparr> =
        [CHR ''#'', digit_char (r div 16), digit_char (r mod 16),
         digit_char (g div 16), digit_char (g mod 16),
         digit_char (b div 16), digit_char (b mod 16)] \<and>
      list_all (\<lambda>c. c \<in> set ''0123456789abcdef'')
        [digit_char (r div 16), digit_char (r mod 16), digit_char (g div 16),
         digit_char (g mod 16), digit_char (b div 16), digit_char (b mod 16)] \<and>
      Number_toString 10 (Fin (of_int r)) = digits 10 r \<and>
      Number_toString 10 (Fin (of_int g)) = digits 10 g \<and>
      Number_toString 10 (Fin (of_int b)) = digits 10 b"
    if range: "0 \<le> r \<and> r \<le> 255 \<and> 0 \<le> g \<and> g \<le> 255 \<and> 0 \<le> b \<and> b \<le> 255"
  proof -
    from range have r: "0 \<le> r" "r \<le> 255" and g: "0 \<le> g" "g \<le> 255"
      and b: "0 \<le> b" "b \<le> 255"
      by simp_all
    have hex: "ColourRGB_toString
        \<lparr>rgb_r = Fin (of_int r), rgb_g = Fin (of_int g), rgb_b = Fin (of_int b), rgb_a = Fin 1\<rparr> =
        [CHR ''#'', digit_char (r div 16), digit_char (r mod 16),
         digit_char (g div 16), digit_char (g mod 16),
         digit_char (b div 16), digit_char (b mod 16)]"
      using range by (simp add: ColourRGB_toString_def padHex_byte)
    have d: "digit_char (n div 16) \<in> set ''0123456789abcdef''"
      "digit_char (n mod 16) \<in> set ''0123456789abcdef''" if "0 \<le> n" "n \<le> 255" for n
      using that by (intro digit_char_hex; simp)+
    have low: "list_all (\<lambda>c. c \<in> set ''0123456789abcdef'')
        [digit_char (r div 16), digit_char (r mod 16), digit_char (g div 16),
         digit_char (g mod 16), digit_char (b div 16), digit_char (b mod 16)]"
      unfolding list.pred_inject
      using d[OF r] d[OF g] d[OF b] by (intro conjI list.pred_inject(1))
    have dec: "Number_toString 10 (Fin (of_int n)) = digits 10 n" if "0 \<le> n" "n \<le> 255" for n
      using that by (intro Number_toString_safe isSafeInteger_small) simp_all
    from hex low dec[OF r] dec[OF g] dec[OF b] show ?thesis by blast
  qed
  have rgba: "a \<noteq> Fin 1 \<longrightarrow>
      ColourRGB_toString \<lparr>rgb_r = x, rgb_g = y, rgb_b = z, rgb_a = a\<rparr> =
        ''rgba('' @ Number_toString 10 x @ '', '' @ Number_toString 10 y @ '', ''
          @ Number_toString 10 z @ '', '' @ Number_toString 10 a @ '')''"
    by (simp add: ColourRGB_toString_def del: Number_toString.simps)
  have ex: "map_sum id ColourRGB_toString
     (ColourRGB_new [Num (Fin 255), Num (Fin 0), Num (Fin 0), Num (Fin (1 / 2))]) =
     Inr ''rgba(255, 0, 0, 0.5)''"
    by code_simp
  from whole rgba ex show ?thesis by blast
qed

theorem ColourRGB_toString_forms_witness:
  "(0::int) \<le> 255 \<and>
   ColourRGB_toString \<lparr>rgb_r = Fin 255, rgb_g = Fin 0, rgb_b = Fin 10, rgb_a = Fin 1\<rparr> =
     ''#ff000a'' \<and>
   Fin (1 / 2) \<noteq> Fin 1 \<and>
   ColourRGB_toString \<lparr>rgb_r = Fin 255, rgb_g = Fin 0, rgb_b = Fin 10, rgb_a = Fin (1 / 2)\<rparr> =
     ''rgba(255, 0, 10, 0.5)''"
proof -
  have n: "Number_toString 10 (Fin 255) = ''255''" "Number_toString 10 (Fin 0) = ''0''"
    "Number_toString 10 (Fin 10) = ''10''" "Number_toString 10 (Fin (1 / 2)) = ''0.5''"
    by code_simp+
  have c: "digit_char (255 div 16) = CHR ''f''" "digit_char (255 mod 16) = CHR ''f''"
    "digit_char (0 div 16) = CHR ''0''" "digit_char (0 mod 16) = CHR ''0''"
    "digit_char (10 div 16) = CHR ''0''" "digit_char (10 mod 16) = CHR ''a''"
    by (simp_all add: digit_char_def)
  have "Fin (1 / 2) \<noteq> Fin 1" by simp
  with ColourRGB_toString_forms[of 255 0 10 "Fin (1 / 2)" "Fin 255" "Fin 0" "Fin 10"]
  show ?thesis
    unfolding c n by (simp del: Number_toString.simps)
qed

text \<open>
  Against claim C7 as stated: the check accepts a channel of 0.5, and the instance, with
  alpha 1, prints \<open>#.80000\<close>, which is not six hex digits.
\<close>

theorem fractional_channel_counterexample:
  "ColourRGB_new [Num (Fin (1 / 2)), Num (Fin 0), Num (Fin 0)] =
     Inr \<lparr>rgb_r = Fin (1 / 2), rgb_g = Fin 0, rgb_b = Fin 0, rgb_a = Fin 1\<rparr> \<and>
   ColourRGB_toString \<lparr>rgb_r = Fin (1 / 2), rgb_g = Fin 0, rgb_b = Fin 0, rgb_a = Fin 1\<rparr> =
     ''#.80000'' \<and>
   \<not> list_all isHexDigit (drop 1 ''#.80000'')"
  by code_simp

section \<open>Rejected arguments\<close>

lemma hash_string_iff:
  "length args = 1 \<and> typeof (args ! 0) = ''string'' \<and> charAt (the_str (args ! 0)) 0 = ''#''
     \<longleftrightarrow> (\<exists>t. args = [Str (CHR ''#'' # t)])"
proof
  assume a: "length args = 1 \<and> typeof (args ! 0) = ''string'' \<and> charAt (the_str (args ! 0)) 0 = ''#''"
  then obtain v where args: "args = [v]"
    by (cases args) simp_all
  with a obtain u where v: "v = Str u"
    by (cases v) (simp_all split: if_splits)
  with a args have "charAt u 0 = ''#''" by simp
  then obtain t where "u = CHR ''#'' # t"
    by (cases u) (simp_all add: charAt_def)
  with args v show "\<exists>t. args = [Str (CHR ''#'' # t)]" by simp
next
  assume "\<exists>t. args = [Str (CHR ''#'' # t)]"
  then show "length args = 1 \<and> typeof (args ! 0) = ''string'' \<and> charAt (the_str (args ! 0)) 0 = ''#''"
    by (auto simp: charAt_def)
qed

lemma isBadNum_typeof: "typeof v \<noteq> ''number'' \<Longrightarrow> isBadNum v mx"
  by (simp add: isBadNum_def)

lemma isBadNum_falsy_number:
  assumes "typeof v = ''number''" "\<not> ToBoolean v"
  shows "\<not> isBadNum v (Fin 1)"
proof -
  from assms(1) obtain x where v: "v = Num x"
    by (cases v) (simp_all split: if_splits)
  with assms(2) have "x = NaN \<or> x = Fin 0" by auto
  with v show ?thesis by (auto simp: isBadNum_def)
qed

text \<open>
  Claim C6, as the code has it by design. Take a call whose arguments can be joined into
  the message and are not one string starting with \<open>#\<close>; a fourth argument that is
  \<open>undefined\<close> counts as left out, and calls whose fourth argument is another falsy value
  that is not a number are left aside. The call fails with the message
  \<open>Invalid ColourRGB arguments\<close> when it has not three or four arguments, when one of its
  arguments is not of type number, and when \<open>r\<close>, \<open>g\<close> or \<open>b\<close> fails \<open>isBadNum\<close> with
  maximum 255 or the fourth argument fails it with maximum 1; \<open>ColourRGB(256, 0, 0)\<close> fails so.
\<close>

theorem ColourRGB_new_InvalidColourArguments:
  assumes "\<forall>t. args \<noteq> [Str (CHR ''#'' # t)]"
    and "Array_join args '', '' = Inr joined"
    and "length args = 4 \<longrightarrow>
           args ! 3 = Undefined \<or> typeof (args ! 3) = ''number'' \<or> ToBoolean (args ! 3)"
  shows "(length args \<noteq> 3 \<and> length args \<noteq> 4 \<longrightarrow>
            ColourRGB_new args = Inl (Error (''Invalid ColourRGB arguments: '' @ joined))) \<and>
         ((length args = 3 \<or> length args = 4) \<and>
          (typeof (args ! 0) \<noteq> ''number'' \<or> typeof (args ! 1) \<noteq> ''number'' \<or>
           typeof (args ! 2) \<noteq> ''number'' \<or>
           (length args = 4 \<and> args ! 3 \<noteq> Undefined \<and> typeof (args ! 3) \<noteq> ''number'')) \<longrightarrow>
            ColourRGB_new args = Inl (Error (''Invalid ColourRGB arguments: '' @ joined))) \<and>
         ((length args = 3 \<or> length args = 4) \<and>
          (isBadNum (args ! 0) (Fin 255) \<or> isBadNum (args ! 1) (Fin 255) \<or>
           isBadNum (args ! 2) (Fin 255) \<or>
           (length args = 4 \<and> args ! 3 \<noteq> Undefined \<and> isBadNum (args ! 3) (Fin 1))) \<longrightarrow>
            ColourRGB_new args = Inl (Error (''Invalid ColourRGB arguments: '' @ joined))) \<and>
         ColourRGB_new [Num (Fin 256), Num (Fin 0), Num (Fin 0)] =
           Inl (Error ''Invalid ColourRGB arguments: 256, 0, 0'')"
proof -
  let ?fails = "ColourRGB_new args = Inl (Error (''Invalid ColourRGB arguments: '' @ joined))"
  from assms(1) have
    "\<not> (length args = 1 \<and> typeof (args ! 0) = ''string'' \<and> charAt (the_str (args ! 0)) 0 = ''#'')"
    unfolding hash_string_iff by blast
  then have new: "ColourRGB_new args =
      (if length args = 3 \<or> length args = 4
       then ColourRGB_check args (element args 0) (element args 1) (element args 2)
              (logical_or (element args 3) (Num (Fin 1)))
       else Inl (thrown_Error ''Invalid ColourRGB arguments: '' (Array_join args '', '')))"
    unfolding ColourRGB_new_def by (simp only: if_False)
  have thrown: "thrown_Error ''Invalid ColourRGB arguments: '' (Array_join args '', '') =
      Error (''Invalid ColourRGB arguments: '' @ joined)"
    by (simp add: assms(2) thrown_Error_def)
  have other: ?fails if "length args \<noteq> 3 \<and> length args \<noteq> 4"
    using that by (simp add: new thrown)
  have bad: ?fails
    if len: "length args = 3 \<or> length args = 4"
      and b: "isBadNum (args ! 0) (Fin 255) \<or> isBadNum (args ! 1) (Fin 255) \<or>
        isBadNum (args ! 2) (Fin 255) \<or>
        (length args = 4 \<and> args ! 3 \<noteq> Undefined \<and> isBadNum (args ! 3) (Fin 1))"
  proof -
    from len have el: "element args 0 = args ! 0" "element args 1 = args ! 1"
      "element args 2 = args ! 2"
      by (auto simp: element_def)
    have "isBadNum (args ! 0) (Fin 255) \<or> isBadNum (args ! 1) (Fin 255) \<or>
        isBadNum (args ! 2) (Fin 255) \<or>
        isBadNum (logical_or (element args 3) (Num (Fin 1))) (Fin 1)"
    proof (cases "length args = 4 \<and> args ! 3 \<noteq> Undefined \<and> isBadNum (args ! 3) (Fin 1)")
      case True
      then have e3: "element args 3 = args ! 3" by (simp add: element_def)
      have "ToBoolean (args ! 3)"
      proof (rule ccontr)
        assume falsy: "\<not> ToBoolean (args ! 3)"
        with True assms(3) have "typeof (args ! 3) = ''number''" by blast
        then have "\<not> isBadNum (args ! 3) (Fin 1)" using falsy by (rule isBadNum_falsy_number)
        with True show False by blast
      qed
      with True e3 show ?thesis by (simp add: logical_or_def)
    next
      case False
      with b show ?thesis by blast
    qed
    moreover from len have "ColourRGB_new args =
        ColourRGB_check args (args ! 0) (args ! 1) (args ! 2)
          (logical_or (element args 3) (Num (Fin 1)))"
      by (simp only: new el if_True)
    ultimately show ?thesis
      by (simp add: ColourRGB_check_def thrown)
  qed
  have untyped: ?fails
    if len: "length args = 3 \<or> length args = 4"
      and u: "typeof (args ! 0) \<noteq> ''number'' \<or> typeof (args ! 1) \<noteq> ''number'' \<or>
        typeof (args ! 2) \<noteq> ''number'' \<or>
        (length args = 4 \<and> args ! 3 \<noteq> Undefined \<and> typeof (args ! 3) \<noteq> ''number'')"
  proof -
    from u have "isBadNum (args ! 0) (Fin 255) \<or> isBadNum (args ! 1) (Fin 255) \<or>
        isBadNum (args ! 2) (Fin 255) \<or>
        (length args = 4 \<and> args ! 3 \<noteq> Undefined \<and> isBadNum (args ! 3) (Fin 1))"
      using isBadNum_typeof by blast
    with len show ?thesis by (rule bad)
  qed
  have ex: "ColourRGB_new [Num (Fin 256), Num (Fin 0), Num (Fin 0)] =
      Inl (Error ''Invalid ColourRGB arguments: 256, 0, 0'')"
    by code_simp
  from other untyped bad ex show ?thesis
    by (intro conjI impI) blast+
qed

theorem ColourRGB_new_InvalidColourArguments_witness:
  "Array_join [Str ''F00''] '', '' = Inr ''F00'' \<and>
   ColourRGB_new [Str ''F00''] = Inl (Error ''Invalid ColourRGB arguments: F00'') \<and>
   Array_join [Num (Fin 1), Num (Fin 2)] '', '' = Inr ''1, 2'' \<and>
   ColourRGB_new [Num (Fin 1), Num (Fin 2)] = Inl (Error ''Invalid ColourRGB arguments: 1, 2'') \<and>
   Array_join [Num (Fin 1), Num (Fin 2), Num (Fin 3), Num (Fin 2)] '', '' = Inr ''1, 2, 3, 2'' \<and>
   ColourRGB_new [Num (Fin 1), Num (Fin 2), Num (Fin 3), Num (Fin 2)] =
     Inl (Error ''Invalid ColourRGB arguments: 1, 2, 3, 2'') \<and>
   Array_join [Num (Fin 1), Object False (Inr ''[object Object]''), Num (Fin 3)] '', '' =
     Inr ''1, [object Object], 3'' \<and>
   ColourRGB_new [Num (Fin 1), Object False (Inr ''[object Object]''), Num (Fin 3)] =
     Inl (Error ''Invalid ColourRGB arguments: 1, [object Object], 3'')"
proof -
  have j: "Array_join [Str ''F00''] '', '' = Inr ''F00''"
    "Array_join [Num (Fin 1), Num (Fin 2)] '', '' = Inr ''1, 2''"
    "Array_join [Num (Fin 1), Num (Fin 2), Num (Fin 3), Num (Fin 2)] '', '' = Inr ''1, 2, 3, 2''"
    "Array_join [Num (Fin 1), Object False (Inr ''[object Object]''), Num (Fin 3)] '', '' =
       Inr ''1, [object Object], 3''"
    by code_simp+
  have b: "isBadNum (Num (Fin 2)) (Fin 1)"
    by (simp add: isBadNum_Fin)
  have 1: "ColourRGB_new [Str ''F00''] = Inl (Error ''Invalid ColourRGB arguments: F00'')"
    using ColourRGB_new_InvalidColourArguments[of "[Str ''F00'']" "''F00''"] j(1) by simp
  have 2: "ColourRGB_new [Num (Fin 1), Num (Fin 2)] =
      Inl (Error ''Invalid ColourRGB arguments: 1, 2'')"
    using ColourRGB_new_InvalidColourArguments[of "[Num (Fin 1), Num (Fin 2)]" "''1, 2''"] j(2)
    by simp
  have 3: "ColourRGB_new [Num (Fin 1), Num (Fin 2), Num (Fin 3), Num (Fin 2)] =
      Inl (Error ''Invalid ColourRGB arguments: 1, 2, 3, 2'')"
    using ColourRGB_new_InvalidColourArguments[of
        "[Num (Fin 1), Num (Fin 2), Num (Fin 3), Num (Fin 2)]" "''1, 2, 3, 2''"] j(3) b
    by simp
  have 4: "ColourRGB_new [Num (Fin 1), Object False (Inr ''[object Object]''), Num (Fin 3)] =
      Inl (Error ''Invalid ColourRGB arguments: 1, [object Object], 3'')"
    using ColourRGB_new_InvalidColourArguments[of
        "[Num (Fin 1), Object False (Inr ''[object Object]''), Num (Fin 3)]"
        "''1, [object Object], 3''"] j(4)
    by simp
  from j 1 2 3 4 show ?thesis
    by (intro conjI)
qed

text \<open>
  Against claim C6 as stated: four arguments of which the last is \<open>undefined\<close> are not
  three or four numbers, and \<open>undefined\<close> is not of type number, yet the call returns an
  instance.
\<close>

theorem explicit_undefined_alpha_counterexample:
  "length [Num (Fin 1), Num (Fin 2), Num (Fin 3), Undefined] = 4 \<and>
   typeof Undefined \<noteq> ''number'' \<and>
   isBadNum Undefined (Fin 1) \<and>
   ColourRGB_new [Num (Fin 1), Num (Fin 2), Num (Fin 3), Undefined] =
     Inr \<lparr>rgb_r = Fin 1, rgb_g = Fin 2, rgb_b = Fin 3, rgb_a = Fin 1\<rparr>"
  by (simp add: isBadNum_def ColourRGB_new_4 ColourRGB_check_def logical_or_def)

end
